theory Spec2Isabelle
  imports Complex_Main "HOL-Library.Word" "HOL-Library.Multiset"
begin

section \<open>Sponsored cross-chain swaps: a shallow embedding\<close>

text \<open>
  The development follows the TypeScript sources of the swap engine: the fee calculator and
  validator (\<^verbatim>\<open>lib/fees\<close>), the transaction builder (\<^verbatim>\<open>lib/transactions\<close>), the
  provider registry (\<^verbatim>\<open>lib/bridges\<close>) and the swap orchestrator (\<^verbatim>\<open>lib/swap\<close>).

  Conventions.
  \<^item> A JavaScript \<^verbatim>\<open>number\<close> is idealised as an exact rational: the binary rounding of
    IEEE doubles is not modelled. Where the source can produce \<^verbatim>\<open>NaN\<close> or an infinity
    (division by zero, a string that does not parse) the model uses \<open>number option\<close> and
    \<open>None\<close> stands for "not a finite number"; every comparison with it is false, as in
    JavaScript.
  \<^item> A thrown exception is the \<open>Inl\<close> branch of a sum, a \<^verbatim>\<open>try/catch\<close> is a case
    distinction on it.
  \<^item> Calls that leave the process (RPC, provider HTTP APIs, the database, the wire-format
    codecs of \<^verbatim>\<open>@solana/kit\<close>) are parameters of the model: their outcome is given,
    what the code does with the outcome is modelled.
\<close>

subsection \<open>Numbers, bytes, errors\<close>

type_synonym number = rat
type_synonym byte = "8 word"

unbundle bit_operations_syntax

text \<open>The application error hierarchy of \<^verbatim>\<open>lib/errors\<close>; \<open>OtherError\<close> is any exception
  that is not an \<^verbatim>\<open>AppError\<close> (a \<^verbatim>\<open>RangeError\<close>, a network failure, ...).\<close>

datatype error =
    NotFoundError string string
  | QuoteExpiredError
  | QuoteDriftError
  | EconomicValidationError "string list"
  | TransactionValidationError "string list"
  | InsufficientBalanceError
  | PriceOracleError string
  | BridgeError string string
  | OtherError string

fun isAppError :: "error \<Rightarrow> bool" where
  "isAppError (OtherError m) = False"
| "isAppError e = True"

text \<open>\<^verbatim>\<open>errorCode\<close> and \<^verbatim>\<open>statusCode\<close> as the constructors of the error classes set them.\<close>

fun errorCode :: "error \<Rightarrow> string" where
  "errorCode (NotFoundError r i) = ''NOT_FOUND''"
| "errorCode QuoteExpiredError = ''QUOTE_ERROR''"
| "errorCode QuoteDriftError = ''QUOTE_ERROR''"
| "errorCode (EconomicValidationError vs) = ''FEE_ERROR''"
| "errorCode (TransactionValidationError vs) = ''TRANSACTION_ERROR''"
| "errorCode InsufficientBalanceError = ''INSUFFICIENT_BALANCE''"
| "errorCode (PriceOracleError m) = ''PRICE_ORACLE_ERROR''"
| "errorCode (BridgeError m p) = ''BRIDGE_ERROR''"
| "errorCode (OtherError m) = ''INTERNAL_ERROR''"

fun statusCode :: "error \<Rightarrow> nat" where
  "statusCode (NotFoundError r i) = 404"
| "statusCode QuoteExpiredError = 400"
| "statusCode QuoteDriftError = 400"
| "statusCode (EconomicValidationError vs) = 400"
| "statusCode (TransactionValidationError vs) = 500"
| "statusCode InsufficientBalanceError = 400"
| "statusCode (PriceOracleError m) = 503"
| "statusCode (BridgeError m p) = 502"
| "statusCode (OtherError m) = 500"

text \<open>Reading \<^verbatim>\<open>xs[i]\<close>: \<^verbatim>\<open>undefined\<close> out of range.\<close>

definition array_get :: "'a list \<Rightarrow> nat \<Rightarrow> 'a option" where
  "array_get xs i = (if i < length xs then Some (xs ! i) else None)"

text \<open>\<^verbatim>\<open>Array.prototype.join\<close> on strings.\<close>

fun js_join :: "string \<Rightarrow> string list \<Rightarrow> string" where
  "js_join sep [] = []"
| "js_join sep [x] = x"
| "js_join sep (x # y # ys) = x @ sep @ js_join sep (y # ys)"

subsection \<open>Configuration constants (\<^verbatim>\<open>lib/config/constants\<close>)\<close>

text \<open>The three environment-backed settings at their defaults.\<close>

definition FEE_VOLATILITY_BUFFER :: number where "FEE_VOLATILITY_BUFFER = 15 / 100"
definition MAX_QUOTE_DRIFT :: number where "MAX_QUOTE_DRIFT = 2 / 100"
definition QUOTE_EXPIRY_SECONDS :: int where "QUOTE_EXPIRY_SECONDS = 30"
definition LAMPORTS_PER_SOL :: number where "LAMPORTS_PER_SOL = 1000000000"
definition PLATFORM_FEE_BPS :: number where "PLATFORM_FEE_BPS = 0"
definition SOLANA_BASE_FEE_LAMPORTS :: number where "SOLANA_BASE_FEE_LAMPORTS = 5000"
definition DEBRIDGE_ORDER_RENT_LAMPORTS :: number where "DEBRIDGE_ORDER_RENT_LAMPORTS = 18000000"

text \<open>Program addresses exported by the \<^verbatim>\<open>@solana-program\<close> packages.\<close>

definition SYSTEM_PROGRAM_ADDRESS :: string where
  "SYSTEM_PROGRAM_ADDRESS = ''11111111111111111111111111111111''"
definition TOKEN_PROGRAM_ADDRESS :: string where
  "TOKEN_PROGRAM_ADDRESS = ''TokenkegQfeZyiNwAJbNbGKPFXCWuBvf9Ss623VQ5DA''"
definition TOKEN_2022_PROGRAM_ADDRESS :: string where
  "TOKEN_2022_PROGRAM_ADDRESS = ''TokenzQdBNbLqP5VEhdkAS6EPFLC1PHnBqCXEpPxuEb''"
definition ASSOCIATED_TOKEN_PROGRAM_ADDRESS :: string where
  "ASSOCIATED_TOKEN_PROGRAM_ADDRESS = ''ATokenGPvbdGVxr1b2hvZbsiqW5xWH25efTNsLJA8knL''"

subsection \<open>Data model (\<^verbatim>\<open>types/bridge\<close>, \<^verbatim>\<open>types/swap\<close>)\<close>

datatype feeToken = USDC | SOL

record UserFee =
  token :: feeToken
  amount :: number
  valueUSD :: number

record CostBreakdown =
  solanaGasFee :: number
  solanaPriorityFee :: number
  bridgeFee :: number
  transferFee :: "number option"
  accountRentCost :: "number option"
  totalSponsorCost :: number

subsection \<open>Fee calculator: the cached reference price (\<^verbatim>\<open>FeeCalculator.ts\<close>)\<close>

record PriceEntry =
  price :: number
  timestamp :: int

text \<open>The calculator's only state is \<^verbatim>\<open>priceCache\<close>, a map from a pair name to an entry.\<close>

record FeeCalculator =
  priceCache :: "string \<rightharpoonup> PriceEntry"

definition getCachedSolPrice :: "FeeCalculator \<Rightarrow> error + number" where
  "getCachedSolPrice fc =
     (case priceCache fc ''SOL/USD'' of
        Some cached \<Rightarrow> Inr (price cached)
      | None \<Rightarrow> Inl (PriceOracleError ''No cached SOL price available''))"

text \<open>\<^verbatim>\<open>validateFeeCoverage\<close>: the whole body is inside \<^verbatim>\<open>try\<close>, the handler returns
  \<^verbatim>\<open>false\<close>.\<close>

definition validateFeeCoverage :: "FeeCalculator \<Rightarrow> UserFee \<Rightarrow> CostBreakdown \<Rightarrow> bool" where
  "validateFeeCoverage fc userFee sponsorCosts =
     (let feeValueUsd = valueUSD userFee;
          costSol = totalSponsorCost sponsorCosts / LAMPORTS_PER_SOL
      in case getCachedSolPrice fc of
           Inl err \<Rightarrow> False
         | Inr solPrice \<Rightarrow>
             (let costUsd = costSol * solPrice;
                  requiredMinimum = costUsd * (1 + FEE_VOLATILITY_BUFFER)
              in feeValueUsd \<ge> requiredMinimum))"

subsection \<open>Fee validator (\<^verbatim>\<open>FeeValidator.ts\<close>)\<close>

record LeakResult =
  valid :: bool
  warning :: "string option"

text \<open>\<^verbatim>\<open>FeeValidator.validateNoFundLeak\<close> reads the singleton calculator.\<close>

definition fv_validateNoFundLeak :: "FeeCalculator \<Rightarrow> UserFee \<Rightarrow> CostBreakdown \<Rightarrow> LeakResult" where
  "fv_validateNoFundLeak feeCalculator userFee sponsorCosts =
     (let coverageValid = validateFeeCoverage feeCalculator userFee sponsorCosts
      in if \<not> coverageValid
         then \<lparr>valid = False,
               warning = Some ''CRITICAL: User fee does not cover sponsor costs - potential fund leak!''\<rparr>
         else \<lparr>valid = True, warning = None\<rparr>)"

record CompiledInstruction =
  programIdIndex :: nat
  accountKeyIndexes :: "nat list"
  ix_data :: "byte list"

record StructureResult =
  sr_valid :: bool
  sr_errors :: "string list"

text \<open>\<^verbatim>\<open>validateTransactionStructure\<close>. \<^verbatim>\<open>!programId\<close> is true for \<^verbatim>\<open>undefined\<close> and
  for the empty string.\<close>

definition validateTransactionStructure ::
    "CompiledInstruction list \<Rightarrow> string list \<Rightarrow> StructureResult" where
  "validateTransactionStructure compiledInstructions staticAccountKeys =
     (let errors0 = (if length compiledInstructions < 2
                     then [''Transaction must have at least 2 instructions''] else [])
      in if length compiledInstructions = 0 then \<lparr>sr_valid = False, sr_errors = errors0\<rparr>
         else case array_get compiledInstructions 0 of
           None \<Rightarrow> \<lparr>sr_valid = False, sr_errors = errors0 @ [''Cannot read first instruction'']\<rparr>
         | Some firstIx \<Rightarrow>
             (case array_get staticAccountKeys (programIdIndex firstIx) of
                None \<Rightarrow> \<lparr>sr_valid = False,
                          sr_errors = errors0 @ [''Cannot resolve program ID for first instruction'']\<rparr>
              | Some programId \<Rightarrow>
                  if programId = [] then
                    \<lparr>sr_valid = False,
                     sr_errors = errors0 @ [''Cannot resolve program ID for first instruction'']\<rparr>
                  else
                    (let isSystemTransfer = (programId = SYSTEM_PROGRAM_ADDRESS);
                         isTokenTransfer = (programId = TOKEN_PROGRAM_ADDRESS
                                            \<or> programId = TOKEN_2022_PROGRAM_ADDRESS);
                         errors1 = (if \<not> isSystemTransfer \<and> \<not> isTokenTransfer
                                    then errors0 @ [''First instruction must be fee transfer (SystemProgram or TokenProgram)'']
                                    else errors0)
                     in \<lparr>sr_valid = (length errors1 = 0), sr_errors = errors1\<rparr>)))"

subsection \<open>Arithmetic that may leave the finite numbers\<close>

text \<open>\<open>None\<close> is \<^verbatim>\<open>NaN\<close> or an infinity. Only the operations the sources apply to such values
  are defined; \<open>js_le\<close> and \<open>js_gt\<close> are used against finite bounds only, where an infinite
  or undefined left operand of \<^verbatim>\<open><=\<close> gives \<^verbatim>\<open>false\<close>.\<close>

definition js_sub :: "number option \<Rightarrow> number option \<Rightarrow> number option" where
  "js_sub a b = (case (a, b) of (Some x, Some y) \<Rightarrow> Some (x - y) | _ \<Rightarrow> None)"

definition js_div :: "number option \<Rightarrow> number option \<Rightarrow> number option" where
  "js_div a b = (case (a, b) of
                   (Some x, Some y) \<Rightarrow> if y = 0 then None else Some (x / y)
                 | _ \<Rightarrow> None)"

definition js_abs :: "number option \<Rightarrow> number option" where
  "js_abs a = map_option abs a"

definition js_le :: "number option \<Rightarrow> number \<Rightarrow> bool" where
  "js_le a b = (case a of Some x \<Rightarrow> x \<le> b | None \<Rightarrow> False)"

subsection \<open>\<^verbatim>\<open>parseFloat\<close>\<close>

text \<open>The built-in \<^verbatim>\<open>parseFloat\<close> on decimal literals: leading white space, an optional
  sign, digits with an optional fraction, an optional exponent; whatever follows is ignored.
  A string with no leading number gives \<^verbatim>\<open>NaN\<close>, the literal \<^verbatim>\<open>Infinity\<close> an infinity;
  both are \<open>None\<close> here.\<close>

definition isDigit :: "char \<Rightarrow> bool" where
  "isDigit c = (48 \<le> (of_char c :: nat) \<and> (of_char c :: nat) \<le> 57)"

definition isWhiteSpace :: "char \<Rightarrow> bool" where
  "isWhiteSpace c = ((of_char c :: nat) \<in> {9, 10, 11, 12, 13, 32})"

definition digitsValue :: "string \<Rightarrow> nat" where
  "digitsValue ds = foldl (\<lambda>acc c. 10 * acc + (of_char c - 48)) 0 ds"

definition parseSign :: "string \<Rightarrow> number \<times> string" where
  "parseSign s = (case s of
       c # rest \<Rightarrow> if c = CHR ''-'' then (-1, rest)
                   else if c = CHR ''+'' then (1, rest) else (1, s)
     | [] \<Rightarrow> (1, s))"

definition parseExponent :: "string \<Rightarrow> int" where
  "parseExponent s = (case s of
       c # rest \<Rightarrow>
         if c = CHR ''e'' \<or> c = CHR ''E'' then
           (let (sg, rest1) = parseSign rest; ds = takeWhile isDigit rest1
            in if ds = [] then 0
               else (if sg < 0 then - int (digitsValue ds) else int (digitsValue ds)))
         else 0
     | [] \<Rightarrow> 0)"

definition parseFloat :: "string \<Rightarrow> number option" where
  "parseFloat s =
     (let (sg, s1) = parseSign (dropWhile isWhiteSpace s);
          intDigits = takeWhile isDigit s1;
          s2 = dropWhile isDigit s1;
          hasPoint = (s2 \<noteq> [] \<and> hd s2 = CHR ''.'');
          fracDigits = (if hasPoint then takeWhile isDigit (tl s2) else []);
          s3 = (if hasPoint then dropWhile isDigit (tl s2) else s2)
      in if intDigits = [] \<and> fracDigits = [] then None
         else Some (sg * (of_nat (digitsValue intDigits)
                          + of_nat (digitsValue fracDigits) / 10 ^ length fracDigits)
                       * power_int 10 (parseExponent s3)))"

subsection \<open>Quotes and quote validation (\<^verbatim>\<open>DeBridgeProvider.validateQuote\<close>,
  \<^verbatim>\<open>FeeValidator.validateQuoteDrift\<close>)\<close>

record RouteInfo =
  steps :: "string list"
  totalFees :: string

text \<open>\<^verbatim>\<open>validUntil\<close> is a \<^verbatim>\<open>Date\<close>, here its millisecond timestamp. The opaque
  \<^verbatim>\<open>rawQuote\<close> payload is left out.\<close>

record BridgeQuote =
  provider :: string
  quoteId :: string
  sourceAmount :: string
  destAmount :: string
  estimatedDuration :: number
  validUntil :: int
  route :: RouteInfo
  estimatedCosts :: CostBreakdown

record QuoteValidation =
  isValid :: bool
  driftPercentage :: "number option"
  currentDestAmount :: "string option"
  reason :: "string option"

text \<open>\<^verbatim>\<open>validateQuote\<close> of a provider. \<open>now\<close> is \<^verbatim>\<open>new Date()\<close>; \<open>freshResult\<close> is the
  outcome of \<^verbatim>\<open>this.getQuote(this.extractParamsFromQuote(quote))\<close>, \<open>Inl\<close> when either
  throws (the \<^verbatim>\<open>catch\<close> branch).\<close>

definition validateQuote :: "int \<Rightarrow> (error + BridgeQuote) \<Rightarrow> BridgeQuote \<Rightarrow> QuoteValidation" where
  "validateQuote now freshResult quote =
     (if now > validUntil quote then
        \<lparr>isValid = False, driftPercentage = Some 0, currentDestAmount = None,
         reason = Some ''Quote expired''\<rparr>
      else case freshResult of
        Inl err \<Rightarrow>
          \<lparr>isValid = False, driftPercentage = Some 0, currentDestAmount = None,
           reason = Some ''Failed to validate quote''\<rparr>
      | Inr freshQuote \<Rightarrow>
          (let originalAmount = parseFloat (destAmount quote);
               currentAmount = parseFloat (destAmount freshQuote);
               drift = js_abs (js_div (js_sub currentAmount originalAmount) originalAmount)
           in \<lparr>isValid = js_le drift MAX_QUOTE_DRIFT, driftPercentage = drift,
               currentDestAmount = Some (destAmount freshQuote), reason = None\<rparr>))"

text \<open>\<^verbatim>\<open>validateQuoteDrift(validation, maxDrift = MAX_QUOTE_DRIFT)\<close>.\<close>

definition validateQuoteDrift :: "QuoteValidation \<Rightarrow> number \<Rightarrow> bool" where
  "validateQuoteDrift validation maxDrift =
     (isValid validation \<and> js_le (driftPercentage validation) maxDrift)"

subsection \<open>Fee calculator: the price oracle (\<^verbatim>\<open>fetchPythPriceOnchain\<close>, \<^verbatim>\<open>getSolPrice\<close>)\<close>

definition MAX_PRICE_AGE_SECONDS :: int where "MAX_PRICE_AGE_SECONDS = 300"
definition PRICE_CACHE_TTL :: int where "PRICE_CACHE_TTL = 60000"

text \<open>The feed id \<^verbatim>\<open>ef0d8b6f...c280b56d\<close> of SOL/USD, 32 bytes.\<close>

definition FEED_ID :: "byte list" where
  "FEED_ID = [0xef, 0x0d, 0x8b, 0x6f, 0xda, 0x2c, 0xeb, 0xa4, 0x1d, 0xa1, 0x5d, 0x40,
              0x95, 0xd1, 0xda, 0x39, 0x2a, 0x0d, 0x2f, 0x8e, 0xd0, 0xc6, 0xc7, 0xbc,
              0x0f, 0x4c, 0xfa, 0xc8, 0xc2, 0x80, 0xb5, 0x6d]"

text \<open>\<^verbatim>\<open>Buffer.indexOf\<close>: the first position where the pattern occurs, \<open>None\<close> for \<^verbatim>\<open>-1\<close>.\<close>

fun indexOf :: "'a list \<Rightarrow> 'a list \<Rightarrow> nat option" where
  "indexOf [] pat = (if pat = [] then Some 0 else None)"
| "indexOf (x # xs) pat =
     (if take (length pat) (x # xs) = pat then Some 0 else map_option Suc (indexOf xs pat))"

text \<open>\<^verbatim>\<open>Buffer.readBigInt64LE\<close> and \<^verbatim>\<open>readInt32LE\<close>: little-endian two's complement, a
  \<^verbatim>\<open>RangeError\<close> when the field does not lie inside the buffer.\<close>

definition leValue :: "byte list \<Rightarrow> nat" where
  "leValue bs = foldr (\<lambda>b acc. unat b + 256 * acc) bs 0"

definition readIntLE :: "nat \<Rightarrow> byte list \<Rightarrow> nat \<Rightarrow> error + int" where
  "readIntLE n buf off =
     (if off + n \<le> length buf then
        (let v = leValue (take n (drop off buf))
         in Inr (if v \<ge> 2 ^ (8 * n - 1) then int v - 2 ^ (8 * n) else int v))
      else Inl (OtherError ''RangeError''))"

record PriceFeedMessage =
  pf_price :: int
  pf_exponent :: int
  pf_publishTime :: int

definition readPriceFeedMessage :: "byte list \<Rightarrow> error + PriceFeedMessage" where
  "readPriceFeedMessage buf =
     (case indexOf buf FEED_ID of
        None \<Rightarrow> Inl (PriceOracleError ''SOL/USD feed ID not found in Pyth account data'')
      | Some feedOffset \<Rightarrow>
          (let base = feedOffset + 32 in
           case readIntLE 8 buf base of Inl e \<Rightarrow> Inl e | Inr p \<Rightarrow>
           case readIntLE 4 buf (base + 16) of Inl e \<Rightarrow> Inl e | Inr ex \<Rightarrow>
           case readIntLE 8 buf (base + 20) of Inl e \<Rightarrow> Inl e | Inr pt \<Rightarrow>
             Inr \<lparr>pf_price = p, pf_exponent = ex, pf_publishTime = pt\<rparr>))"

text \<open>\<open>accountInfo\<close> is the outcome of the RPC call: \<open>Inl\<close> when it throws, \<open>Inr None\<close> when
  the account does not exist, otherwise the decoded account data. \<open>now\<close> is \<^verbatim>\<open>Date.now()\<close>
  in milliseconds.\<close>

definition fetchPythPriceOnchain :: "int \<Rightarrow> (error + byte list option) \<Rightarrow> error + number" where
  "fetchPythPriceOnchain now accountInfo =
     (case accountInfo of
        Inl e \<Rightarrow> Inl e
      | Inr None \<Rightarrow> Inl (PriceOracleError ''Pyth SOL/USD price account not found on-chain'')
      | Inr (Some buf) \<Rightarrow>
          (case readPriceFeedMessage buf of
             Inl e \<Rightarrow> Inl e
           | Inr m \<Rightarrow>
               (let age = now div 1000 - pf_publishTime m in
                if age > MAX_PRICE_AGE_SECONDS
                then Inl (PriceOracleError ''Pyth on-chain price is stale'')
                else
                  (let actualPrice = of_int (pf_price m) * power_int 10 (pf_exponent m) in
                   if actualPrice < 10 \<or> actualPrice > 1000
                   then Inl (PriceOracleError ''Pyth price seems unreasonable'')
                   else Inr actualPrice))))"

text \<open>\<^verbatim>\<open>getSolPrice\<close> returns a price or throws, and may store a fresh entry. The three
  readings of the clock are \<open>now\<close> (cache check), \<open>nowFetch\<close> (staleness check inside the
  fetch) and \<open>nowStore\<close> (time stamp of the new entry).\<close>

definition getSolPrice ::
    "int \<Rightarrow> int \<Rightarrow> int \<Rightarrow> (error + byte list option) \<Rightarrow> FeeCalculator
     \<Rightarrow> (error + number) \<times> FeeCalculator" where
  "getSolPrice now nowFetch nowStore accountInfo fc =
     (let cached = priceCache fc ''SOL/USD'';
          refreshed =
            (case fetchPythPriceOnchain nowFetch accountInfo of
               Inr p \<Rightarrow>
                 (Inr p,
                  fc\<lparr>priceCache := (priceCache fc)(''SOL/USD'' \<mapsto> \<lparr>price = p, timestamp = nowStore\<rparr>)\<rparr>)
             | Inl err \<Rightarrow>
                 (case cached of
                    Some c \<Rightarrow> (Inr (price c), fc)
                  | None \<Rightarrow>
                      (Inl (PriceOracleError
                         ''SOL price unavailable: Pyth oracle returned no valid price and no cache exists''),
                       fc)))
      in case cached of
           Some c \<Rightarrow> if now - timestamp c < PRICE_CACHE_TTL then (Inr (price c), fc) else refreshed
         | None \<Rightarrow> refreshed)"

subsection \<open>Fee calculator: the minimum fee (\<^verbatim>\<open>calculateMinimumFee\<close>)\<close>

text \<open>\<^verbatim>\<open>new Decimal(x).toDecimalPlaces(dp, Decimal.ROUND_UP).toNumber()\<close>. In decimal.js
  \<^verbatim>\<open>ROUND_UP\<close> rounds away from zero.\<close>

definition toDecimalPlaces_ROUND_UP :: "nat \<Rightarrow> number \<Rightarrow> number" where
  "toDecimalPlaces_ROUND_UP dp x =
     (if x < 0 then - (of_int \<lceil>- x * 10 ^ dp\<rceil> / 10 ^ dp)
      else of_int \<lceil>x * 10 ^ dp\<rceil> / 10 ^ dp)"

record MinimumFee =
  feeInUsdc :: number
  feeInSol :: number

text \<open>The body of \<^verbatim>\<open>calculateMinimumFee\<close> after the price has been obtained.\<close>

definition minimumFeeAtPrice :: "number \<Rightarrow> CostBreakdown \<Rightarrow> number \<Rightarrow> MinimumFee" where
  "minimumFeeAtPrice solPriceUsd costs volatilityBuffer =
     (let totalCostLamports = totalSponsorCost costs;
          totalCostSol = totalCostLamports / LAMPORTS_PER_SOL;
          bufferedCostSol = totalCostSol * (1 + volatilityBuffer);
          platformFeeMultiplier = 1 + PLATFORM_FEE_BPS / 10000;
          finalCostSol = bufferedCostSol * platformFeeMultiplier;
          finalCostUsd = finalCostSol * solPriceUsd
      in \<lparr>feeInUsdc = toDecimalPlaces_ROUND_UP 6 finalCostUsd,
          feeInSol = toDecimalPlaces_ROUND_UP 9 finalCostSol\<rparr>)"

definition calculateMinimumFee ::
    "int \<Rightarrow> int \<Rightarrow> int \<Rightarrow> (error + byte list option) \<Rightarrow> FeeCalculator
     \<Rightarrow> CostBreakdown \<Rightarrow> number \<Rightarrow> (error + MinimumFee) \<times> FeeCalculator" where
  "calculateMinimumFee now nowFetch nowStore accountInfo fc costs volatilityBuffer =
     (case getSolPrice now nowFetch nowStore accountInfo fc of
        (Inl e, fc') \<Rightarrow> (Inl e, fc')
      | (Inr solPriceUsd, fc') \<Rightarrow> (Inr (minimumFeeAtPrice solPriceUsd costs volatilityBuffer), fc'))"

subsection \<open>Transaction builder (\<^verbatim>\<open>TransactionBuilder.ts\<close>)\<close>

text \<open>What the decoders of \<^verbatim>\<open>@solana/kit\<close> deliver. \<open>signatures\<close> lists the keys of the
  decoded signature map (one signer address per signature slot).\<close>

record DecodedTransaction =
  signatures :: "string list"
  messageBytes :: "byte list"

record KitInstruction =
  programAddressIndex :: nat
  accountIndices :: "nat list option"
  data :: "byte list option"

record CompiledMessage =
  staticAccounts :: "string list"
  instructions :: "KitInstruction list"
  lifetimeToken :: string

text \<open>The codecs are taken as given; \<open>None\<close> means that the codec throws.\<close>

record Codecs =
  decodeTransaction :: "byte list \<Rightarrow> DecodedTransaction option"
  decodeCompiledMessage :: "byte list \<Rightarrow> CompiledMessage option"
  bs58_decode :: "string \<Rightarrow> byte list option"

text \<open>\<^verbatim>\<open>existing.every((b, i) => b === oldBytes[i])\<close>: past the end of \<^verbatim>\<open>oldBytes\<close> the
  comparison is with \<^verbatim>\<open>undefined\<close> and fails.\<close>

definition every_matches :: "byte list \<Rightarrow> byte list \<Rightarrow> bool" where
  "every_matches existing oldBytes =
     list_all (\<lambda>i. array_get oldBytes i = Some (existing ! i)) [0 ..< length existing]"

text \<open>\<^verbatim>\<open>result.set(newBytes, offset)\<close> on a copy: a \<^verbatim>\<open>RangeError\<close> when the source does not
  fit.\<close>

definition uint8_set :: "byte list \<Rightarrow> byte list \<Rightarrow> nat \<Rightarrow> error + byte list" where
  "uint8_set target src off =
     (if off + length src > length target then Inl (OtherError ''RangeError: offset is out of bounds'')
      else Inr (take off target @ src @ drop (off + length src) target))"

text \<open>The offset arithmetic of \<^verbatim>\<open>replaceBlockhash\<close>.\<close>

definition blockhashOffset :: "DecodedTransaction \<Rightarrow> CompiledMessage \<Rightarrow> byte list \<Rightarrow> nat" where
  "blockhashOffset decoded compiledMsg txBytes =
     (let numSigs = length (signatures decoded);
          sigsCompact = (if numSigs < 128 then 1 else if numSigs < 16384 then 2 else 3);
          msgStart = sigsCompact + numSigs * 64;
          isV0 = (case array_get txBytes msgStart of
                    Some b \<Rightarrow> (b AND 0x80) \<noteq> 0
                  | None \<Rightarrow> False);
          prefixLen = (if isV0 then 1 else 0);
          headerLen = 3;
          numAccounts = length (staticAccounts compiledMsg);
          accountsCompact = (if numAccounts < 128 then 1 else if numAccounts < 16384 then 2 else 3)
      in msgStart + prefixLen + headerLen + accountsCompact + numAccounts * 32)"

text \<open>\<open>recent\<close> is the outcome of \<^verbatim>\<open>solanaService.getRecentBlockhash()\<close>.\<close>

definition replaceBlockhash :: "Codecs \<Rightarrow> (error + string) \<Rightarrow> byte list \<Rightarrow> error + byte list" where
  "replaceBlockhash codecs recent txBytes =
     (case recent of
        Inl e \<Rightarrow> Inl e
      | Inr blockhash \<Rightarrow>
     (case decodeTransaction codecs txBytes of
        None \<Rightarrow> Inl (OtherError ''transaction decoder'')
      | Some decoded \<Rightarrow>
     (case decodeCompiledMessage codecs (messageBytes decoded) of
        None \<Rightarrow> Inl (OtherError ''message decoder'')
      | Some compiledMsg \<Rightarrow>
          (let oldBlockhash = lifetimeToken compiledMsg in
           if oldBlockhash = blockhash then Inr txBytes
           else
     (case bs58_decode codecs oldBlockhash of
        None \<Rightarrow> Inl (OtherError ''bs58'')
      | Some oldBytes \<Rightarrow>
     (case bs58_decode codecs blockhash of
        None \<Rightarrow> Inl (OtherError ''bs58'')
      | Some newBytes \<Rightarrow>
          (let offset = blockhashOffset decoded compiledMsg txBytes;
               existing = take 32 (drop offset txBytes)
           in if \<not> every_matches existing oldBytes
              then Inl (OtherError ''Blockhash offset mismatch - raw bytes do not match decoded blockhash'')
              else uint8_set txBytes newBytes offset)))))))"

record ValidationResult =
  vr_isValid :: bool
  vr_errors :: "string list"
  vr_warnings :: "string list"

text \<open>The key under which the duplicate check files an instruction. The source renders the
  triple as \<^verbatim>\<open>`${programAddressIndex}-${indices}-${dataHex}`\<close>, which determines it; absent
  indices or data render as the empty string, like empty ones.\<close>

definition instructionHash :: "KitInstruction \<Rightarrow> nat \<times> nat list \<times> byte list" where
  "instructionHash ix =
     (programAddressIndex ix,
      (case accountIndices ix of Some is \<Rightarrow> is | None \<Rightarrow> []),
      (case data ix of Some d \<Rightarrow> d | None \<Rightarrow> []))"

text \<open>The loop over the instructions with the set of hashes seen so far.\<close>

fun duplicateScan :: "(nat \<times> nat list \<times> byte list) set \<Rightarrow> KitInstruction list \<Rightarrow> string list" where
  "duplicateScan instructionHashes [] = []"
| "duplicateScan instructionHashes (ix # rest) =
     (if instructionHash ix \<in> instructionHashes then [''Duplicate instruction detected''] else [])
       @ duplicateScan (insert (instructionHash ix) instructionHashes) rest"

text \<open>\<^verbatim>\<open>TransactionBuilder.validateNoFundLeak\<close>. An absent or empty \<^verbatim>\<open>sponsorAddress\<close> is
  falsy. Only the decoders can throw inside the \<^verbatim>\<open>try\<close>.\<close>

definition tb_validateNoFundLeak :: "Codecs \<Rightarrow> byte list \<Rightarrow> string option \<Rightarrow> ValidationResult" where
  "tb_validateNoFundLeak codecs serializedTx sponsorAddress =
     (case decodeTransaction codecs serializedTx of
        None \<Rightarrow> \<lparr>vr_isValid = False, vr_errors = [''Validation error''], vr_warnings = []\<rparr>
      | Some decoded \<Rightarrow>
     (case decodeCompiledMessage codecs (messageBytes decoded) of
        None \<Rightarrow> \<lparr>vr_isValid = False, vr_errors = [''Validation error''], vr_warnings = []\<rparr>
      | Some message \<Rightarrow>
          (let errors0 =
                 (case sponsorAddress of
                    None \<Rightarrow> []
                  | Some sponsor \<Rightarrow>
                      if sponsor = [] then []
                      else (case array_get (staticAccounts message) 0 of
                              None \<Rightarrow> [''Sponsor is not the fee payer of this transaction'']
                            | Some feePayer \<Rightarrow>
                                if feePayer = [] \<or> feePayer \<noteq> sponsor
                                then [''Sponsor is not the fee payer of this transaction'']
                                else []));
               ixs = instructions message;
               errors1 = (if length ixs < 2
                          then errors0 @ [''Transaction must have at least 2 instructions (fee + swap)'']
                          else errors0)
           in case array_get ixs 0 of
                None \<Rightarrow> \<lparr>vr_isValid = False,
                          vr_errors = errors1 @ [''Transaction has no instructions''],
                          vr_warnings = []\<rparr>
              | Some firstInstruction \<Rightarrow>
                  (let programAddrIndex = programAddressIndex firstInstruction;
                       unresolved = \<lparr>vr_isValid = False,
                          vr_errors = errors1 @ [''Cannot find program ID for first instruction''],
                          vr_warnings = []\<rparr>
                   in case array_get (staticAccounts message) programAddrIndex of
                        None \<Rightarrow> unresolved
                      | Some programId \<Rightarrow>
                          if programId = [] then unresolved
                          else
                            (let isSystemTransfer = (programId = SYSTEM_PROGRAM_ADDRESS);
                                 isTokenTransfer = (programId = TOKEN_PROGRAM_ADDRESS
                                                    \<or> programId = TOKEN_2022_PROGRAM_ADDRESS);
                                 isAtaCreation = (programId = ASSOCIATED_TOKEN_PROGRAM_ADDRESS);
                                 errors2 =
                                   (if \<not> isSystemTransfer \<and> \<not> isTokenTransfer \<and> \<not> isAtaCreation
                                    then errors1 @ [''First instruction must be fee-related (SystemProgram, TokenProgram, or AssociatedTokenProgram)'']
                                    else errors1);
                                 warnings0 = (if length ixs > 20
                                              then [''Transaction has unusually high instruction count'']
                                              else []);
                                 warnings1 = warnings0 @ duplicateScan {} ixs
                             in \<lparr>vr_isValid = (length errors2 = 0), vr_errors = errors2,
                                 vr_warnings = warnings1\<rparr>)))))"

subsection \<open>Provider registry (\<^verbatim>\<open>ProviderRegistry.ts\<close>)\<close>

definition js_add :: "number option \<Rightarrow> number option \<Rightarrow> number option" where
  "js_add a b = (case (a, b) of (Some x, Some y) \<Rightarrow> Some (x + y) | _ \<Rightarrow> None)"

definition js_mul :: "number option \<Rightarrow> number option \<Rightarrow> number option" where
  "js_mul a b = (case (a, b) of (Some x, Some y) \<Rightarrow> Some (x * y) | _ \<Rightarrow> None)"

text \<open>\<^verbatim>\<open>Array.prototype.sort\<close> with a comparator. The sort is stable, and has one possible
  result whenever the comparator is a consistent ordering; it is written here as the stable
  insertion sort. An element moves behind another one only when the comparator is positive;
  a comparator value \<^verbatim>\<open>NaN\<close> counts as zero.\<close>

fun js_insert :: "('a \<Rightarrow> 'a \<Rightarrow> number option) \<Rightarrow> 'a \<Rightarrow> 'a list \<Rightarrow> 'a list" where
  "js_insert cmp x [] = [x]"
| "js_insert cmp x (y # ys) =
     (if (case cmp x y of Some v \<Rightarrow> v > 0 | None \<Rightarrow> False)
      then y # js_insert cmp x ys else x # y # ys)"

definition js_sort :: "('a \<Rightarrow> 'a \<Rightarrow> number option) \<Rightarrow> 'a list \<Rightarrow> 'a list" where
  "js_sort cmp xs = foldr (js_insert cmp) xs []"

text \<open>\<^verbatim>\<open>Math.max(...xs)\<close>; of no arguments it is \<^verbatim>\<open>-Infinity\<close>.\<close>

fun js_max :: "number list \<Rightarrow> number option" where
  "js_max [] = None"
| "js_max (x # xs) = Some (fold max xs x)"

record QuoteParams =
  sourceChain :: string
  sourceToken :: string
  qp_sourceAmount :: string
  destChain :: string
  destToken :: string
  userWallet :: string
  destWallet :: string

text \<open>A provider, as far as the aggregation uses it: its name and the outcome of its two
  calls, \<open>Inl\<close> when the promise rejects.\<close>

record BridgeProvider =
  name :: string
  supportsRoute :: "QuoteParams \<Rightarrow> error + bool"
  getQuote :: "QuoteParams \<Rightarrow> error + BridgeQuote"

text \<open>\<^verbatim>\<open>error instanceof Error ? error.message : String(error)\<close>.\<close>

fun errorMessage :: "error \<Rightarrow> string" where
  "errorMessage (NotFoundError r i) = r @ '' not found: '' @ i"
| "errorMessage QuoteExpiredError = ''Quote expired. Please request a new quote.''"
| "errorMessage QuoteDriftError = ''Quote drift too high. Please refresh quote.''"
| "errorMessage (EconomicValidationError vs) = ''Economic validation failed: '' @ js_join '', '' vs"
| "errorMessage (TransactionValidationError vs) = ''Transaction validation failed: '' @ js_join '', '' vs"
| "errorMessage InsufficientBalanceError = ''Insufficient balance''"
| "errorMessage (PriceOracleError m) = m"
| "errorMessage (BridgeError m p) = m"
| "errorMessage (OtherError m) = m"

datatype providerStatus = success | no_route | error_status

record ProviderResult =
  pr_provider :: string
  pr_status :: providerStatus
  pr_error :: "string option"

record AggregatedQuotes =
  quotes :: "BridgeQuote list"
  bestQuote :: BridgeQuote
  recommendedQuote :: BridgeQuote
  providerResults :: "ProviderResult list"

text \<open>The registry keeps a \<^verbatim>\<open>Map\<close> from name to provider; a \<^verbatim>\<open>Map\<close> iterates in insertion
  order and \<^verbatim>\<open>set\<close> on a present key keeps the key's place.\<close>

type_synonym ProviderRegistry = "(string \<times> BridgeProvider) list"

fun map_set :: "'k \<Rightarrow> 'v \<Rightarrow> ('k \<times> 'v) list \<Rightarrow> ('k \<times> 'v) list" where
  "map_set k v [] = [(k, v)]"
| "map_set k v ((k', v') # rest) = (if k' = k then (k, v) # rest else (k', v') # map_set k v rest)"

definition register :: "BridgeProvider \<Rightarrow> ProviderRegistry \<Rightarrow> ProviderRegistry" where
  "register p reg = map_set (name p) p reg"

definition unregister :: "string \<Rightarrow> ProviderRegistry \<Rightarrow> ProviderRegistry" where
  "unregister providerName reg = filter (\<lambda>(k, v). k \<noteq> providerName) reg"

definition getProvider :: "ProviderRegistry \<Rightarrow> string \<Rightarrow> BridgeProvider option" where
  "getProvider reg n = map_of reg n"

definition getAllProviders :: "ProviderRegistry \<Rightarrow> BridgeProvider list" where
  "getAllProviders reg = map snd reg"

definition calculateNetAmount :: "BridgeQuote \<Rightarrow> number option" where
  "calculateNetAmount quote =
     (let destAmount = parseFloat (destAmount quote);
          totalFees = parseFloat (totalFees (route quote))
      in js_sub destAmount totalFees)"

definition rankQuotes :: "BridgeQuote list \<Rightarrow> BridgeQuote list" where
  "rankQuotes qs =
     js_sort (\<lambda>a b. let aNet = calculateNetAmount a; bNet = calculateNetAmount b
                     in js_sub bNet aNet) qs"

text \<open>The score of one quote inside \<^verbatim>\<open>selectRecommendedQuote\<close>.\<close>

definition quoteScore :: "BridgeQuote list \<Rightarrow> BridgeQuote \<Rightarrow> number option" where
  "quoteScore rankedQuotes quote =
     (let netAmount = calculateNetAmount quote;
          maxAmount = (case rankedQuotes of [] \<Rightarrow> None | best # rest \<Rightarrow> calculateNetAmount best);
          amountScore = js_div netAmount maxAmount;
          maxDuration = js_max (map estimatedDuration rankedQuotes);
          speedScore = js_sub (Some 1) (js_div (Some (estimatedDuration quote)) maxDuration)
      in js_add (js_mul amountScore (Some (7 / 10))) (js_mul speedScore (Some (3 / 10))))"

text \<open>On an empty list \<^verbatim>\<open>scoredQuotes[0]!.quote\<close> is a \<^verbatim>\<open>TypeError\<close>.\<close>

definition selectRecommendedQuote :: "BridgeQuote list \<Rightarrow> error + BridgeQuote" where
  "selectRecommendedQuote rankedQuotes =
     (if length rankedQuotes = 1 then Inr (rankedQuotes ! 0)
      else
        (let scoredQuotes = map (\<lambda>quote. (quote, quoteScore rankedQuotes quote)) rankedQuotes;
             sorted = js_sort (\<lambda>a b. js_sub (snd b) (snd a)) scoredQuotes
         in case sorted of
              [] \<Rightarrow> Inl (OtherError ''TypeError'')
            | first # rest \<Rightarrow> Inr (fst first)))"

text \<open>The two rounds of \<^verbatim>\<open>getAggregatedQuotes\<close>. Within a round the providers are asked
  concurrently; \<^verbatim>\<open>Promise.all\<close> returns the outcomes in the order of the providers, and
  the entries of \<^verbatim>\<open>providerResults\<close> are listed here in that order too.\<close>

definition supportCheck :: "QuoteParams \<Rightarrow> BridgeProvider \<Rightarrow> BridgeProvider \<times> bool" where
  "supportCheck params p =
     (case supportsRoute p params of
        Inr supported \<Rightarrow> (p, supported)
      | Inl e \<Rightarrow> (p, True))"

definition noRouteResults :: "QuoteParams \<Rightarrow> BridgeProvider list \<Rightarrow> ProviderResult list" where
  "noRouteResults params ps =
     concat (map (\<lambda>p. case supportsRoute p params of
                         Inr supported \<Rightarrow>
                           if \<not> supported
                           then [\<lparr>pr_provider = name p, pr_status = no_route, pr_error = None\<rparr>]
                           else []
                       | Inl e \<Rightarrow> []) ps)"

definition quoteResult :: "QuoteParams \<Rightarrow> BridgeProvider \<Rightarrow> ProviderResult" where
  "quoteResult params p =
     (case getQuote p params of
        Inr quote \<Rightarrow> \<lparr>pr_provider = name p, pr_status = success, pr_error = None\<rparr>
      | Inl e \<Rightarrow> \<lparr>pr_provider = name p, pr_status = error_status,
                   pr_error = Some (errorMessage e)\<rparr>)"

definition fetchedQuotes :: "QuoteParams \<Rightarrow> BridgeProvider list \<Rightarrow> BridgeQuote list" where
  "fetchedQuotes params ps =
     concat (map (\<lambda>p. case getQuote p params of Inr quote \<Rightarrow> [quote] | Inl e \<Rightarrow> []) ps)"

definition getAggregatedQuotes :: "ProviderRegistry \<Rightarrow> QuoteParams \<Rightarrow> error + AggregatedQuotes" where
  "getAggregatedQuotes reg params =
     (let providers = getAllProviders reg in
      if length providers = 0 then Inl (OtherError ''No bridge providers registered'')
      else
        (let supportChecks = map (supportCheck params) providers;
             eligibleProviders = map fst (filter snd supportChecks)
         in if length eligibleProviders = 0
            then Inl (OtherError ''No providers support this token pair'')
            else
              (let results = noRouteResults params providers
                               @ map (quoteResult params) eligibleProviders;
                   quotes = fetchedQuotes params eligibleProviders
               in if length quotes = 0
                  then Inl (OtherError ''Failed to get quotes from any provider'')
                  else
                    (let rankedQuotes = rankQuotes quotes in
                     case selectRecommendedQuote rankedQuotes of
                       Inl e \<Rightarrow> Inl e
                     | Inr recommended \<Rightarrow>
                         Inr \<lparr>quotes = rankedQuotes, bestQuote = rankedQuotes ! 0,
                              recommendedQuote = recommended,
                              providerResults = results\<rparr>))))"

subsection \<open>Fee validator: economic guarantees (\<^verbatim>\<open>validateEconomicGuarantees\<close>)\<close>

text \<open>\<^verbatim>\<open>convertFee\<close>; the two tokens are \<open>SOL\<close> and \<open>USDC\<close>. All clock readings of one
  call are taken to be the same instant \<open>now\<close>.\<close>

definition convertFee ::
    "int \<Rightarrow> (error + byte list option) \<Rightarrow> FeeCalculator \<Rightarrow> number \<Rightarrow> feeToken \<Rightarrow> feeToken
     \<Rightarrow> (error + number) \<times> FeeCalculator" where
  "convertFee now accountInfo fc amt from to =
     (if from = to then (Inr amt, fc)
      else case getSolPrice now now now accountInfo fc of
             (Inl e, fc') \<Rightarrow> (Inl e, fc')
           | (Inr solPrice, fc') \<Rightarrow>
               if from = SOL \<and> to = USDC then (Inr (amt * solPrice), fc')
               else if solPrice = 0 then (Inl (OtherError ''[DecimalError] Division by zero''), fc')
               else (Inr (amt / solPrice), fc'))"

record GuaranteeResult =
  gr_valid :: bool
  gr_errors :: "string list"

definition validateEconomicGuarantees ::
    "int \<Rightarrow> (error + byte list option) \<Rightarrow> FeeCalculator \<Rightarrow> BridgeQuote \<Rightarrow> UserFee
     \<Rightarrow> CostBreakdown \<Rightarrow> (error + GuaranteeResult) \<times> FeeCalculator" where
  "validateEconomicGuarantees now accountInfo fc quote userFee sponsorCosts =
     (let coverageValid = validateFeeCoverage fc userFee sponsorCosts;
          errors0 = (if \<not> coverageValid then [''User fee does not cover sponsor costs''] else []);
          errors1 = (if now > validUntil quote then errors0 @ [''Quote has expired''] else errors0)
      in case calculateMinimumFee now now now accountInfo fc sponsorCosts FEE_VOLATILITY_BUFFER of
           (Inl e, fc1) \<Rightarrow> (Inl e, fc1)
         | (Inr minFees, fc1) \<Rightarrow>
             (case (if token userFee = USDC then (Inr (amount userFee), fc1)
                    else convertFee now accountInfo fc1 (amount userFee) SOL USDC) of
                (Inl e, fc2) \<Rightarrow> (Inl e, fc2)
              | (Inr userFeeAmount, fc2) \<Rightarrow>
                  (let errors2 = (if userFeeAmount < feeInUsdc minFees
                                  then errors1 @ [''Fee too low''] else errors1);
                       maxReasonableCost = 1 / 10;
                       costSol = totalSponsorCost sponsorCosts / 1000000000;
                       errors3 = (if costSol > maxReasonableCost
                                  then errors2 @ [''Sponsor costs unreasonably high''] else errors2)
                   in (Inr \<lparr>gr_valid = (length errors3 = 0), gr_errors = errors3\<rparr>, fc2))))"

subsection \<open>Swap orchestrator (\<^verbatim>\<open>SwapOrchestrator.ts\<close>)\<close>

text \<open>\<^verbatim>\<open>CreateSwapData\<close>. The two amounts that the source stores in decimal notation are
  kept as numbers.\<close>

record CreateSwapData =
  cd_userWallet :: string
  cd_destWallet :: string
  cd_sourceChain :: string
  cd_sourceToken :: string
  cd_sourceAmount :: string
  cd_destChain :: string
  cd_destToken :: string
  cd_destAmount :: string
  cd_provider :: string
  cd_providerId :: string
  cd_quoteId :: string
  cd_userFeeToken :: feeToken
  cd_userFeeAmount :: number
  cd_sponsorCostsSol :: number
  cd_estimatedDuration :: number

record PendingSwap =
  createData :: CreateSwapData
  pending_validUntil :: int

datatype PrismaSwapStatus = SUBMITTED | BRIDGING | COMPLETED | FAILED

text \<open>A durable row of the \<^verbatim>\<open>Swap\<close> table, as far as the orchestrator writes it.\<close>

record SwapRow =
  row_data :: CreateSwapData
  row_status :: PrismaSwapStatus
  row_solanaSignature :: "string option"
  row_errorMessage :: "string option"

text \<open>The orchestrator with what it acts on: the address of its sponsor signer, its two
  maps, the fee calculator singleton, the
  durable table behind \<^verbatim>\<open>swapRepository\<close>, and the list of transactions that were handed
  to \<^verbatim>\<open>solanaService.sendAndConfirmTransaction\<close>.\<close>

record SwapSystem =
  sponsorSigner :: string
  pendingSwaps :: "string \<rightharpoonup> PendingSwap"
  activeMonitors :: "string set"
  feeCalculator :: FeeCalculator
  swapRows :: "string \<rightharpoonup> SwapRow"
  sentTransactions :: "byte list list"

definition cleanupExpiredPendingSwaps :: "int \<Rightarrow> (string \<rightharpoonup> PendingSwap) \<Rightarrow> (string \<rightharpoonup> PendingSwap)" where
  "cleanupExpiredPendingSwaps now m =
     (\<lambda>id. case m id of
              Some pending \<Rightarrow> if now > pending_validUntil pending then None else Some pending
            | None \<Rightarrow> None)"

definition adjustCostsForSponsoredMode :: "CostBreakdown \<Rightarrow> number \<Rightarrow> CostBreakdown" where
  "adjustCostsForSponsoredMode costs solAdvanceLamports =
     (let adjustedGasFee = SOLANA_BASE_FEE_LAMPORTS * 2
      in costs\<lparr>solanaGasFee := adjustedGasFee,
               totalSponsorCost :=
                 adjustedGasFee + solanaPriorityFee costs
                 + (case accountRentCost costs of Some r \<Rightarrow> r | None \<Rightarrow> 0)
                 + solAdvanceLamports\<rparr>)"

record RequestParams =
  rp_sourceToken :: string
  rp_destChain :: string
  rp_destToken :: string
  rp_destWallet :: string

record BuildTransactionResult =
  bt_transaction :: "byte list"
  bt_providerId :: "string option"

record Simulation =
  sim_success :: bool
  sim_logs :: "string list option"

text \<open>What the outside world answers during one \<^verbatim>\<open>prepareSwap\<close>: the registry lookup with
  the provider's re-quote, cost estimate and transaction, the request parameters read from
  the raw quote, the recent blockhash, the oracle account, the codecs, the transaction with
  the fee instructions added, the simulation, and the generated id.\<close>

record ProviderCalls =
  pc_freshQuote :: "error + BridgeQuote"
  pc_estimateCosts :: "error + CostBreakdown"
  pc_buildTransaction :: "error + BuildTransactionResult"

record PrepareEnv =
  pe_now :: int
  pe_provider :: "ProviderCalls option"
  pe_requestParams :: "error + RequestParams"
  pe_recentBlockhash :: "error + string"
  pe_accountInfo :: "error + byte list option"
  pe_codecs :: Codecs
  pe_addFeeTransfer :: "error + byte list"
  pe_simulation :: Simulation
  pe_randomUUID :: string

record PreparedSwap =
  prep_quote :: BridgeQuote
  prep_transaction :: "byte list"
  prep_userFee :: UserFee
  prep_sponsorCosts :: CostBreakdown
  prep_validUntil :: int
  prep_swapId :: string

text \<open>\<^verbatim>\<open>logs.join(' ').includes('insufficient funds')\<close>: the pattern occurs somewhere.\<close>

definition js_includes :: "string \<Rightarrow> string \<Rightarrow> bool" where
  "js_includes s pat = (indexOf s pat \<noteq> None)"

text \<open>Step 4 of \<^verbatim>\<open>prepareSwap\<close>: the transaction to sign, the fee and the final costs. The
  fee calculator may have refreshed its cache on the way.\<close>

definition prepareTransaction ::
    "PrepareEnv \<Rightarrow> string \<Rightarrow> FeeCalculator \<Rightarrow> BridgeQuote \<Rightarrow> feeToken \<Rightarrow> CostBreakdown
     \<Rightarrow> byte list \<Rightarrow> (error + byte list \<times> UserFee \<times> CostBreakdown) \<times> FeeCalculator" where
  "prepareTransaction env sponsor fc quote feeTok costs providerTxBytes =
     (if feeTok = SOL then
        (case replaceBlockhash (pe_codecs env) (pe_recentBlockhash env) providerTxBytes of
           Inl e \<Rightarrow> (Inl e, fc)
         | Inr completeTx \<Rightarrow>
             (Inr (completeTx, \<lparr>token = SOL, amount = 0, valueUSD = 0\<rparr>, costs), fc))
      else
        (let solAdvance = (if provider quote = ''debridge'' then DEBRIDGE_ORDER_RENT_LAMPORTS else 0);
             finalCosts = adjustCostsForSponsoredMode costs solAdvance
         in case calculateMinimumFee (pe_now env) (pe_now env) (pe_now env) (pe_accountInfo env) fc
                   finalCosts FEE_VOLATILITY_BUFFER of
              (Inl e, fc1) \<Rightarrow> (Inl e, fc1)
            | (Inr minFees, fc1) \<Rightarrow>
                (let userFee = \<lparr>token = USDC, amount = feeInUsdc minFees,
                                valueUSD = feeInUsdc minFees\<rparr>
                 in case validateEconomicGuarantees (pe_now env) (pe_accountInfo env) fc1 quote
                           userFee finalCosts of
                      (Inl e, fc2) \<Rightarrow> (Inl e, fc2)
                    | (Inr guarantees, fc2) \<Rightarrow>
                        if \<not> gr_valid guarantees
                        then (Inl (EconomicValidationError (gr_errors guarantees)), fc2)
                        else
                          (case pe_addFeeTransfer env of
                             Inl e \<Rightarrow> (Inl e, fc2)
                           | Inr completeTx \<Rightarrow>
                               (let txValidation =
                                      tb_validateNoFundLeak (pe_codecs env) completeTx (Some sponsor)
                                in if \<not> vr_isValid txValidation
                                   then (Inl (TransactionValidationError (vr_errors txValidation)), fc2)
                                   else (Inr (completeTx, userFee, finalCosts), fc2))))))"

text \<open>The body of the \<^verbatim>\<open>try\<close> block of \<^verbatim>\<open>prepareSwap\<close>, after the sweep of expired
  entries.\<close>

definition prepareSwapBody ::
    "PrepareEnv \<Rightarrow> BridgeQuote \<Rightarrow> string \<Rightarrow> feeToken \<Rightarrow> SwapSystem
     \<Rightarrow> (error + PreparedSwap) \<times> SwapSystem" where
  "prepareSwapBody env quote wallet feeTok st =
     (case pe_provider env of
        None \<Rightarrow> (Inl (NotFoundError ''Provider'' (provider quote)), st)
      | Some prov \<Rightarrow>
     (let validation = validateQuote (pe_now env) (pc_freshQuote prov) quote in
      if \<not> validateQuoteDrift validation MAX_QUOTE_DRIFT then (Inl QuoteDriftError, st)
      else
     (case pe_requestParams env of
        Inl e \<Rightarrow> (Inl e, st)
      | Inr reqParams \<Rightarrow>
     (case pc_estimateCosts prov of
        Inl e \<Rightarrow> (Inl e, st)
      | Inr costs \<Rightarrow>
     (case pc_buildTransaction prov of
        Inl e \<Rightarrow> (Inl e, st)
      | Inr built \<Rightarrow>
     (case prepareTransaction env (sponsorSigner st) (feeCalculator st) quote feeTok costs
             (bt_transaction built) of
        (Inl e, fc') \<Rightarrow> (Inl e, st\<lparr>feeCalculator := fc'\<rparr>)
      | (Inr (completeTx, userFee, finalCosts), fc') \<Rightarrow>
          (let st1 = st\<lparr>feeCalculator := fc'\<rparr>;
               simulation = pe_simulation env;
               logs = (case sim_logs simulation of Some ls \<Rightarrow> js_join '' '' ls | None \<Rightarrow> [])
           in if \<not> sim_success simulation \<and> js_includes logs ''insufficient funds''
              then (Inl InsufficientBalanceError, st1)
              else
                (let swapId = pe_randomUUID env;
                     until = pe_now env + QUOTE_EXPIRY_SECONDS * 1000;
                     entry = \<lparr>createData =
                                 \<lparr>cd_userWallet = wallet,
                                  cd_destWallet = rp_destWallet reqParams,
                                  cd_sourceChain = ''solana'',
                                  cd_sourceToken = rp_sourceToken reqParams,
                                  cd_sourceAmount = sourceAmount quote,
                                  cd_destChain = rp_destChain reqParams,
                                  cd_destToken = rp_destToken reqParams,
                                  cd_destAmount = destAmount quote,
                                  cd_provider = provider quote,
                                  cd_providerId = (case bt_providerId built of
                                                     Some i \<Rightarrow> if i = [] then quoteId quote else i
                                                   | None \<Rightarrow> quoteId quote),
                                  cd_quoteId = quoteId quote,
                                  cd_userFeeToken = token userFee,
                                  cd_userFeeAmount = amount userFee,
                                  cd_sponsorCostsSol = (if feeTok = SOL then 0
                                                        else totalSponsorCost finalCosts),
                                  cd_estimatedDuration = estimatedDuration quote\<rparr>,
                               pending_validUntil = until\<rparr>
                 in (Inr \<lparr>prep_quote = quote, prep_transaction = completeTx,
                          prep_userFee = userFee, prep_sponsorCosts = finalCosts,
                          prep_validUntil = until, prep_swapId = swapId\<rparr>,
                     st1\<lparr>pendingSwaps := (pendingSwaps st1)(swapId \<mapsto> entry)\<rparr>)))))))))"

text \<open>\<^verbatim>\<open>prepareSwap\<close>: sweep, body, and the handler that passes an \<^verbatim>\<open>AppError\<close> on and wraps
  anything else in a \<^verbatim>\<open>BridgeError\<close>.\<close>

definition prepareSwap ::
    "PrepareEnv \<Rightarrow> BridgeQuote \<Rightarrow> string \<Rightarrow> feeToken \<Rightarrow> SwapSystem
     \<Rightarrow> (error + PreparedSwap) \<times> SwapSystem" where
  "prepareSwap env quote wallet feeTok st =
     (let st0 = st\<lparr>pendingSwaps := cleanupExpiredPendingSwaps (pe_now env) (pendingSwaps st)\<rparr>
      in case prepareSwapBody env quote wallet feeTok st0 of
           (Inl e, st') \<Rightarrow>
             (Inl (if isAppError e then e else BridgeError ''Failed to prepare swap'' (provider quote)),
              st')
         | (Inr prepared, st') \<Rightarrow> (Inr prepared, st'))"

text \<open>\<^verbatim>\<open>executeSwap\<close>. The outside world answers with the clock, the codecs, whether
  \<^verbatim>\<open>swapRepository.create\<close> and \<^verbatim>\<open>swapRepository.updateStatus\<close> throw, what
  \<^verbatim>\<open>sendAndConfirmTransaction\<close> returns (it never throws) and whether the provider of the
  swap is registered when the monitor starts. \<open>txBytes\<close> is the decoded base64 argument.\<close>

record SendResult =
  send_signature :: string
  send_success :: bool
  send_error :: "string option"

datatype executionStatus = submitted | failed

record ExecutionResult =
  er_swapId :: string
  er_status :: executionStatus
  er_signature :: "string option"
  er_error :: "string option"

record ExecuteEnv =
  ee_now :: int
  ee_codecs :: Codecs
  ee_create :: "error option"
  ee_send :: SendResult
  ee_updateStatus :: "error option"
  ee_providerRegistered :: bool

definition deletePending :: "string \<Rightarrow> SwapSystem \<Rightarrow> SwapSystem" where
  "deletePending swapId st = st\<lparr>pendingSwaps := (pendingSwaps st)(swapId := None)\<rparr>"

definition updateStatus ::
    "string \<Rightarrow> PrismaSwapStatus \<Rightarrow> string option \<Rightarrow> string option \<Rightarrow> SwapSystem \<Rightarrow> SwapSystem" where
  "updateStatus swapId status sig err st =
     st\<lparr>swapRows :=
          (\<lambda>id. if id = swapId
                 then map_option (\<lambda>row. row\<lparr>row_status := status,
                                             row_solanaSignature := (case sig of Some x \<Rightarrow> Some x
                                                                     | None \<Rightarrow> row_solanaSignature row),
                                             row_errorMessage := (case err of Some x \<Rightarrow> Some x
                                                                  | None \<Rightarrow> row_errorMessage row)\<rparr>)
                        (swapRows st id)
                 else swapRows st id)\<rparr>"

text \<open>The \<^verbatim>\<open>try\<close> block of \<^verbatim>\<open>executeSwap\<close>; \<open>Inl\<close> is an exception on its way to the
  handler.\<close>

definition executeSwapTry ::
    "ExecuteEnv \<Rightarrow> string \<Rightarrow> byte list \<Rightarrow> PendingSwap \<Rightarrow> SwapSystem
     \<Rightarrow> (error + ExecutionResult) \<times> SwapSystem" where
  "executeSwapTry env swapId txBytes pending st =
     (let validation =
            (if cd_userFeeToken (createData pending) \<noteq> SOL
             then tb_validateNoFundLeak (ee_codecs env) txBytes (Some (sponsorSigner st))
             else \<lparr>vr_isValid = True, vr_errors = [], vr_warnings = []\<rparr>)
      in if \<not> vr_isValid validation then
           (Inr \<lparr>er_swapId = swapId, er_status = failed, er_signature = None,
                 er_error = Some (js_join '', '' (vr_errors validation))\<rparr>,
            deletePending swapId st)
         else
           (case ee_create env of
              Some e \<Rightarrow> (Inl e, st)
            | None \<Rightarrow>
                (let st1 = st\<lparr>swapRows := (swapRows st)(swapId \<mapsto>
                                 \<lparr>row_data = createData pending, row_status = SUBMITTED,
                                  row_solanaSignature = None, row_errorMessage = None\<rparr>)\<rparr>;
                     st2 = deletePending swapId st1;
                     st3 = st2\<lparr>sentTransactions := sentTransactions st2 @ [txBytes]\<rparr>;
                     result = ee_send env
                 in if \<not> send_success result then
                      (case ee_updateStatus env of
                         Some e \<Rightarrow> (Inl e, st3)
                       | None \<Rightarrow>
                           (Inr \<lparr>er_swapId = swapId, er_status = failed, er_signature = None,
                                 er_error = send_error result\<rparr>,
                            updateStatus swapId FAILED None (send_error result) st3))
                    else
                      (case ee_updateStatus env of
                         Some e \<Rightarrow> (Inl e, st3)
                       | None \<Rightarrow>
                           (let st4 = updateStatus swapId SUBMITTED (Some (send_signature result))
                                        None st3;
                                st5 = (if ee_providerRegistered env
                                       then st4\<lparr>activeMonitors := insert swapId (activeMonitors st4)\<rparr>
                                       else st4)
                            in (Inr \<lparr>er_swapId = swapId, er_status = submitted,
                                     er_signature = Some (send_signature result),
                                     er_error = None\<rparr>,
                                st5))))))"

definition executeSwap ::
    "ExecuteEnv \<Rightarrow> string \<Rightarrow> byte list \<Rightarrow> SwapSystem \<Rightarrow> (error + ExecutionResult) \<times> SwapSystem" where
  "executeSwap env swapId txBytes st =
     (case pendingSwaps st swapId of
        None \<Rightarrow> (Inl (NotFoundError ''Swap'' swapId), st)
      | Some pending \<Rightarrow>
          if ee_now env > pending_validUntil pending
          then (Inl QuoteExpiredError, deletePending swapId st)
          else
            (case executeSwapTry env swapId txBytes pending st of
               (Inr result, st') \<Rightarrow> (Inr result, st')
             | (Inl e, st') \<Rightarrow>
                 (let st'' = deletePending swapId st'
                  in if isAppError e then (Inl e, st'')
                     else (Inr \<lparr>er_swapId = swapId, er_status = failed, er_signature = None,
                                er_error = Some (errorMessage e)\<rparr>,
                           st''))))"

subsection \<open>Fixtures of the unit tests\<close>

text \<open>The cost breakdown and the quote that \<^verbatim>\<open>MockProvider.getQuote\<close> of the registry tests
  returns.\<close>

definition mockCosts :: CostBreakdown where
  "mockCosts = \<lparr>solanaGasFee = 5000, solanaPriorityFee = 10000, bridgeFee = 0,
                transferFee = None, accountRentCost = None, totalSponsorCost = 15000\<rparr>"

definition mockQuote :: "string \<Rightarrow> string \<Rightarrow> number \<Rightarrow> string \<Rightarrow> int \<Rightarrow> BridgeQuote" where
  "mockQuote pname dest duration fees until =
     \<lparr>provider = pname, quoteId = pname @ ''-quote-1'', sourceAmount = ''100'',
      destAmount = dest, estimatedDuration = duration, validUntil = until,
      route = \<lparr>steps = [], totalFees = fees\<rparr>, estimatedCosts = mockCosts\<rparr>"


text \<open>Account data holding one price message: feed id, price \<open>15000000000\<close>, a confidence
  field, exponent \<open>-8\<close> and publish time \<open>1700000000\<close>, that is 150 dollars.\<close>

definition pythAccountData :: "byte list" where
  "pythAccountData =
     FEED_ID @ [0x00, 0xD6, 0x11, 0x7E, 0x03, 0, 0, 0] @ [1, 2, 3, 4, 5, 6, 7, 8]
       @ [0xF8, 0xFF, 0xFF, 0xFF] @ [0x00, 0xF1, 0x53, 0x65, 0, 0, 0, 0]"

text \<open>Codecs that answer with a fixed decoding, and a transaction in the legacy layout with
  one signature slot, one static account (thirty-two bytes \<open>7\<close>) and blockhash bytes \<open>9\<close>.\<close>

definition stubCodecs :: "DecodedTransaction \<Rightarrow> CompiledMessage \<Rightarrow> (string \<rightharpoonup> byte list) \<Rightarrow> Codecs" where
  "stubCodecs d m b =
     \<lparr>decodeTransaction = (\<lambda>bytes. Some d), decodeCompiledMessage = (\<lambda>bytes. Some m),
      bs58_decode = b\<rparr>"

definition legacyTx :: "byte list" where
  "legacyTx = [1] @ replicate 64 0 @ [1, 0, 0] @ [1] @ replicate 32 7 @ replicate 32 9 @ [0]"

definition legacyDecoded :: DecodedTransaction where
  "legacyDecoded = \<lparr>signatures = [''payer''], messageBytes = drop 65 legacyTx\<rparr>"

definition legacyMessage :: CompiledMessage where
  "legacyMessage = \<lparr>staticAccounts = [''payer''], instructions = [], lifetimeToken = ''old''\<rparr>"

definition legacyCodecs :: Codecs where
  "legacyCodecs = stubCodecs legacyDecoded legacyMessage
                    [''old'' \<mapsto> replicate 32 9, ''new'' \<mapsto> replicate 32 5]"

text \<open>A sponsored message: fee transfer first, then a bridge instruction and its copy.\<close>

definition sponsoredMessage :: CompiledMessage where
  "sponsoredMessage =
     \<lparr>staticAccounts = [''sponsor'', ''user'', SYSTEM_PROGRAM_ADDRESS, ''bridge''],
      instructions =
        [\<lparr>programAddressIndex = 2, accountIndices = Some [1, 0], data = Some [2, 0, 0, 0]\<rparr>,
         \<lparr>programAddressIndex = 3, accountIndices = Some [1], data = Some [1]\<rparr>,
         \<lparr>programAddressIndex = 3, accountIndices = Some [1], data = Some [1]\<rparr>],
      lifetimeToken = ''old''\<rparr>"

definition sponsoredCodecs :: Codecs where
  "sponsoredCodecs = stubCodecs \<lparr>signatures = [''sponsor'', ''user''], messageBytes = []\<rparr>
                       sponsoredMessage Map.empty"

text \<open>The mock provider of the registry tests with fixed outcomes, the request of those
  tests, and a registry of three providers: one whose route probe throws and whose quote
  succeeds, one that supports the route and fails to quote, one without a route.\<close>

definition mockProvider :: "string \<Rightarrow> (error + bool) \<Rightarrow> (error + BridgeQuote) \<Rightarrow> BridgeProvider" where
  "mockProvider n s q = \<lparr>name = n, supportsRoute = (\<lambda>params. s), getQuote = (\<lambda>params. q)\<rparr>"

definition mockParams :: QuoteParams where
  "mockParams = \<lparr>sourceChain = ''solana'', sourceToken = ''token1'', qp_sourceAmount = ''100'',
                 destChain = ''1'', destToken = ''token2'', userWallet = ''wallet1'',
                 destWallet = ''wallet2''\<rparr>"

definition flakyProbe :: BridgeProvider where
  "flakyProbe = mockProvider ''flaky-probe'' (Inl (OtherError ''probe timeout''))
                  (Inr (mockQuote ''flaky-probe'' ''1000'' 300 ''10'' 30000))"

definition badProvider :: BridgeProvider where
  "badProvider = mockProvider ''bad-provider'' (Inr True) (Inl (OtherError ''Provider error''))"

definition noRouteProvider :: BridgeProvider where
  "noRouteProvider = mockProvider ''no-route'' (Inr False) (Inl (OtherError ''unused''))"

definition mockRegistry :: ProviderRegistry where
  "mockRegistry = register noRouteProvider (register badProvider (register flakyProbe []))"

text \<open>Three quotes: two of equal net amount 950, and one of net amount 1080 that is the slowest.\<close>

definition quoteP1 :: BridgeQuote where "quoteP1 = mockQuote ''provider-1'' ''1000'' 300 ''50'' 30000"

text \<open>An orchestrator with empty maps, the outcomes of a direct-mode preparation of the first
  quote above, and a confirmation at time \<open>t\<close> in which every external call succeeds.\<close>

definition emptySystem :: SwapSystem where
  "emptySystem = \<lparr>sponsorSigner = ''sponsor'', pendingSwaps = Map.empty, activeMonitors = {},
                   feeCalculator = \<lparr>priceCache = Map.empty\<rparr>, swapRows = Map.empty,
                   sentTransactions = []\<rparr>"

definition directEnv :: PrepareEnv where
  "directEnv =
     \<lparr>pe_now = 0,
      pe_provider = Some \<lparr>pc_freshQuote = Inr quoteP1, pc_estimateCosts = Inr mockCosts,
                           pc_buildTransaction =
                             Inr \<lparr>bt_transaction = legacyTx, bt_providerId = None\<rparr>\<rparr>,
      pe_requestParams = Inr \<lparr>rp_sourceToken = ''token1'', rp_destChain = ''1'',
                               rp_destToken = ''token2'', rp_destWallet = ''wallet2''\<rparr>,
      pe_recentBlockhash = Inr ''old'', pe_accountInfo = Inr None, pe_codecs = legacyCodecs,
      pe_addFeeTransfer = Inl (OtherError ''unused''),
      pe_simulation = \<lparr>sim_success = True, sim_logs = None\<rparr>,
      pe_randomUUID = ''swap-1''\<rparr>"

definition confirmEnv :: "int \<Rightarrow> ExecuteEnv" where
  "confirmEnv t =
     \<lparr>ee_now = t, ee_codecs = legacyCodecs, ee_create = None,
      ee_send = \<lparr>send_signature = ''sig'', send_success = True, send_error = None\<rparr>,
      ee_updateStatus = None, ee_providerRegistered = True\<rparr>"

section \<open>Properties\<close>

subsection \<open>Fee coverage fails closed\<close>

lemma getCachedSolPrice_throws_iff:
  "(\<exists>e. getCachedSolPrice fc = Inl e) \<longleftrightarrow> priceCache fc ''SOL/USD'' = None"
  by (simp add: getCachedSolPrice_def split: option.splits)

lemma validateFeeCoverage_no_price:
  "getCachedSolPrice fc = Inl e \<Longrightarrow> validateFeeCoverage fc userFee sponsorCosts = False"
  by (simp add: validateFeeCoverage_def Let_def)

text \<open>
  Claim C10. When no SOL/USD price is cached, reading the cached price throws, and
  \<open>validateFeeCoverage\<close> answers \<open>False\<close> instead of propagating the exception; hence
  \<open>FeeValidator.validateNoFundLeak\<close> reports \<open>valid = False\<close> for every fee and every cost
  breakdown: with an unknown reference price the coverage check fails closed.
\<close>

theorem validateFeeCoverage_fails_closed:
  assumes "priceCache fc ''SOL/USD'' = None"
  shows "(\<exists>e. getCachedSolPrice fc = Inl e)
       \<and> validateFeeCoverage fc userFee sponsorCosts = False
       \<and> valid (fv_validateNoFundLeak fc userFee sponsorCosts) = False"
proof -
  from assms obtain e where e: "getCachedSolPrice fc = Inl e"
    using getCachedSolPrice_throws_iff by blast
  then have "validateFeeCoverage fc userFee sponsorCosts = False"
    by (rule validateFeeCoverage_no_price)
  with e show ?thesis
    by (auto simp: fv_validateNoFundLeak_def Let_def)
qed

theorem validateFeeCoverage_fails_closed_witness:
  "priceCache \<lparr>priceCache = Map.empty\<rparr> ''SOL/USD'' = None
   \<and> validateFeeCoverage \<lparr>priceCache = Map.empty\<rparr>
        \<lparr>token = USDC, amount = 1000000, valueUSD = 1000000\<rparr>
        \<lparr>solanaGasFee = 5000, solanaPriorityFee = 10000, bridgeFee = 0, transferFee = None,
         accountRentCost = None, totalSponsorCost = 15000\<rparr> = False
   \<and> valid (fv_validateNoFundLeak \<lparr>priceCache = Map.empty\<rparr>
        \<lparr>token = USDC, amount = 1000000, valueUSD = 1000000\<rparr>
        \<lparr>solanaGasFee = 5000, solanaPriorityFee = 10000, bridgeFee = 0, transferFee = None,
         accountRentCost = None, totalSponsorCost = 15000\<rparr>) = False"
  using validateFeeCoverage_fails_closed [of "\<lparr>priceCache = Map.empty\<rparr>"
      "\<lparr>token = USDC, amount = 1000000, valueUSD = 1000000\<rparr>"
      "\<lparr>solanaGasFee = 5000, solanaPriorityFee = 10000, bridgeFee = 0, transferFee = None,
         accountRentCost = None, totalSponsorCost = 15000\<rparr>"]
  by simp

subsection \<open>Transaction shape\<close>

lemma validateTransactionStructure_valid_iff:
  "sr_valid (validateTransactionStructure ixs keys) \<longleftrightarrow>
     2 \<le> length ixs \<and>
     (\<exists>pid. array_get keys (programIdIndex (ixs ! 0)) = Some pid \<and>
        (pid = SYSTEM_PROGRAM_ADDRESS \<or> pid = TOKEN_PROGRAM_ADDRESS
         \<or> pid = TOKEN_2022_PROGRAM_ADDRESS))"
proof (cases "length ixs < 2")
  case True
  then show ?thesis
    by (auto simp: validateTransactionStructure_def Let_def array_get_def
             split: option.splits)
next
  case False
  then have len: "2 \<le> length ixs" "length ixs \<noteq> 0" "0 < length ixs" by auto
  show ?thesis
  proof (cases "array_get keys (programIdIndex (ixs ! 0))")
    case None
    with len show ?thesis
      by (simp add: validateTransactionStructure_def Let_def array_get_def)
  next
    case (Some pid)
    have ne: "SYSTEM_PROGRAM_ADDRESS \<noteq> []" "TOKEN_PROGRAM_ADDRESS \<noteq> []"
             "TOKEN_2022_PROGRAM_ADDRESS \<noteq> []"
      by (simp_all add: SYSTEM_PROGRAM_ADDRESS_def TOKEN_PROGRAM_ADDRESS_def
                        TOKEN_2022_PROGRAM_ADDRESS_def)
    from Some len ne show ?thesis
      by (auto simp: validateTransactionStructure_def Let_def array_get_def)
  qed
qed

text \<open>
  Claim C5. \<open>validateTransactionStructure\<close> rejects every instruction list with fewer than
  two instructions (so a list of length one fails whatever its program id is), and when it
  accepts, the program of the first instruction resolves among the static account keys to
  the System program (native transfer), the Token or Token-2022 program (token transfer) or
  the Associated-Token program (idempotent account creation).
\<close>

theorem validateTransactionStructure_shape:
  "(length ixs < 2 \<longrightarrow> \<not> sr_valid (validateTransactionStructure ixs keys))
   \<and> (length ixs = 1 \<longrightarrow> \<not> sr_valid (validateTransactionStructure ixs keys))
   \<and> (sr_valid (validateTransactionStructure ixs keys) \<longrightarrow>
        (\<exists>pid. array_get keys (programIdIndex (ixs ! 0)) = Some pid \<and>
           (pid = SYSTEM_PROGRAM_ADDRESS \<or> pid = TOKEN_PROGRAM_ADDRESS
            \<or> pid = TOKEN_2022_PROGRAM_ADDRESS \<or> pid = ASSOCIATED_TOKEN_PROGRAM_ADDRESS)))"
  unfolding validateTransactionStructure_valid_iff by auto

theorem validateTransactionStructure_shape_witness:
  "length [\<lparr>programIdIndex = 1, accountKeyIndexes = [0], ix_data = [2, 0, 0, 0]\<rparr>] = 1
   \<and> \<not> sr_valid (validateTransactionStructure
          [\<lparr>programIdIndex = 1, accountKeyIndexes = [0], ix_data = [2, 0, 0, 0]\<rparr>]
          [''payer'', SYSTEM_PROGRAM_ADDRESS])
   \<and> sr_valid (validateTransactionStructure
          [\<lparr>programIdIndex = 2, accountKeyIndexes = [0, 1], ix_data = [2, 0, 0, 0]\<rparr>,
           \<lparr>programIdIndex = 3, accountKeyIndexes = [1], ix_data = [1]\<rparr>]
          [''payer'', ''user'', SYSTEM_PROGRAM_ADDRESS, ''bridge''])
   \<and> array_get [''payer'', ''user'', SYSTEM_PROGRAM_ADDRESS, ''bridge'']
        (programIdIndex ([\<lparr>programIdIndex = 2, accountKeyIndexes = [0, 1], ix_data = [2, 0, 0, 0]\<rparr>,
           \<lparr>programIdIndex = 3, accountKeyIndexes = [1], ix_data = [1]\<rparr>] ! 0))
       = Some SYSTEM_PROGRAM_ADDRESS"
  using validateTransactionStructure_shape
          [of "[\<lparr>programIdIndex = 1, accountKeyIndexes = [0], ix_data = [2, 0, 0, 0]\<rparr>]"
              "[''payer'', SYSTEM_PROGRAM_ADDRESS]"]
        validateTransactionStructure_shape
          [of "[\<lparr>programIdIndex = 2, accountKeyIndexes = [0, 1], ix_data = [2, 0, 0, 0]\<rparr>,
                \<lparr>programIdIndex = 3, accountKeyIndexes = [1], ix_data = [1]\<rparr>]"
              "[''payer'', ''user'', SYSTEM_PROGRAM_ADDRESS, ''bridge'']"]
  by (simp add: validateTransactionStructure_def array_get_def Let_def
                SYSTEM_PROGRAM_ADDRESS_def TOKEN_PROGRAM_ADDRESS_def
                TOKEN_2022_PROGRAM_ADDRESS_def)


subsection \<open>Quote drift\<close>

lemma parseFloat_examples:
  "parseFloat ''1000'' = Some 1000" "parseFloat ''970'' = Some 970"
  "parseFloat ''985'' = Some 985"
  by (simp_all add: parseFloat_def parseSign_def isDigit_def isWhiteSpace_def digitsValue_def
                    parseExponent_def)





subsection \<open>Minimum fee: rounding never undershoots\<close>


lemma toDecimalPlaces_ROUND_UP_lt:
  assumes "0 \<le> x"
  shows "toDecimalPlaces_ROUND_UP dp x < x + 1 / 10 ^ dp"
proof -
  have "of_int \<lceil>x * 10 ^ dp\<rceil> < x * 10 ^ dp + 1"
    using ceiling_correct [of "x * 10 ^ dp"] by linarith
  then have "of_int \<lceil>x * 10 ^ dp\<rceil> / 10 ^ dp < (x * 10 ^ dp + 1) / 10 ^ dp"
    by (simp add: divide_strict_right_mono)
  also have "\<dots> = x + 1 / 10 ^ dp"
    by (simp add: add_divide_distrib)
  finally show ?thesis using assms
    by (simp add: toDecimalPlaces_ROUND_UP_def)
qed






lemma minimumFee_spec_example:
  "minimumFeeAtPrice 150 mockCosts (15 / 100)
     = \<lparr>feeInUsdc = 2588 / 10 ^ 6, feeInSol = 17250 / 10 ^ 9\<rparr>"
  by (simp add: minimumFeeAtPrice_def mockCosts_def toDecimalPlaces_ROUND_UP_def
                LAMPORTS_PER_SOL_def PLATFORM_FEE_BPS_def Let_def ceiling_eq_iff)

subsection \<open>The price oracle\<close>


lemma fetchPythPriceOnchain_accepts:
  assumes "fetchPythPriceOnchain nowFetch accountInfo = Inr p"
  shows "\<exists>buf m. accountInfo = Inr (Some buf) \<and> readPriceFeedMessage buf = Inr m
           \<and> nowFetch div 1000 - pf_publishTime m \<le> MAX_PRICE_AGE_SECONDS
           \<and> p = of_int (pf_price m) * power_int 10 (pf_exponent m) \<and> 10 \<le> p \<and> p \<le> 1000"
  using assms
  by (auto simp: fetchPythPriceOnchain_def Let_def split: sum.splits option.splits if_splits)




lemma getSolPrice_refresh:
  assumes "\<forall>c. priceCache fc ''SOL/USD'' = Some c \<longrightarrow> \<not> now - timestamp c < PRICE_CACHE_TTL"
      and "fetchPythPriceOnchain nowFetch accountInfo = Inr p"
  shows "getSolPrice now nowFetch nowStore accountInfo fc =
           (Inr p, fc\<lparr>priceCache := (priceCache fc)(''SOL/USD'' \<mapsto> \<lparr>price = p, timestamp = nowStore\<rparr>)\<rparr>)"
  using assms by (auto simp: getSolPrice_def Let_def split: option.splits)


lemma readPriceFeedMessage_example:
  "readPriceFeedMessage pythAccountData
     = Inr \<lparr>pf_price = 15000000000, pf_exponent = - 8, pf_publishTime = 1700000000\<rparr>"
proof -
  have idx: "indexOf pythAccountData FEED_ID = Some 0"
    by (simp add: pythAccountData_def FEED_ID_def)
  have r1: "readIntLE 8 pythAccountData 32 = Inr 15000000000"
    by (simp add: pythAccountData_def FEED_ID_def readIntLE_def leValue_def)
  have r2: "readIntLE 4 pythAccountData 48 = Inr (- 8)"
    by (simp add: pythAccountData_def FEED_ID_def readIntLE_def leValue_def)
  have r3: "readIntLE 8 pythAccountData 52 = Inr 1700000000"
    by (simp add: pythAccountData_def FEED_ID_def readIntLE_def leValue_def)
  show ?thesis
    by (simp add: readPriceFeedMessage_def idx r1 r2 r3)
qed

lemma fetchPythPriceOnchain_example_fresh:
  "fetchPythPriceOnchain 1700000100000 (Inr (Some pythAccountData)) = Inr 150"
  by (simp add: fetchPythPriceOnchain_def readPriceFeedMessage_example Let_def
                MAX_PRICE_AGE_SECONDS_def power_int_minus)



subsection \<open>No-fund-leak validation of a serialized transaction\<close>

lemma duplicateScan_only_warning:
  "set (duplicateScan seen ixs) \<subseteq> {''Duplicate instruction detected''}"
  by (induction ixs arbitrary: seen) auto

lemma duplicateScan_detects:
  "''Duplicate instruction detected'' \<in> set (duplicateScan seen ixs) \<longleftrightarrow>
     \<not> distinct (map instructionHash ixs) \<or> set (map instructionHash ixs) \<inter> seen \<noteq> {}"
  by (induction ixs arbitrary: seen) auto

lemma tb_validateNoFundLeak_decode_failure:
  assumes "decodeTransaction codecs tx = None
           \<or> (\<exists>d. decodeTransaction codecs tx = Some d \<and> decodeCompiledMessage codecs (messageBytes d) = None)"
  shows "\<not> vr_isValid (tb_validateNoFundLeak codecs tx sponsor)"
  using assms by (auto simp: tb_validateNoFundLeak_def)

lemma program_addresses_nonempty:
  "SYSTEM_PROGRAM_ADDRESS \<noteq> []" "TOKEN_PROGRAM_ADDRESS \<noteq> []"
  "TOKEN_2022_PROGRAM_ADDRESS \<noteq> []" "ASSOCIATED_TOKEN_PROGRAM_ADDRESS \<noteq> []"
  by (simp_all add: SYSTEM_PROGRAM_ADDRESS_def TOKEN_PROGRAM_ADDRESS_def
                    TOKEN_2022_PROGRAM_ADDRESS_def ASSOCIATED_TOKEN_PROGRAM_ADDRESS_def)

lemma tb_validateNoFundLeak_valid_iff:
  assumes "decodeTransaction codecs tx = Some decoded"
      and "decodeCompiledMessage codecs (messageBytes decoded) = Some message"
  shows "vr_isValid (tb_validateNoFundLeak codecs tx sponsorAddress) \<longleftrightarrow>
           (\<forall>s. sponsorAddress = Some s \<and> s \<noteq> [] \<longrightarrow> array_get (staticAccounts message) 0 = Some s)
           \<and> 2 \<le> length (instructions message)
           \<and> (\<exists>pid. array_get (staticAccounts message)
                        (programAddressIndex (instructions message ! 0)) = Some pid
                 \<and> (pid = SYSTEM_PROGRAM_ADDRESS \<or> pid = TOKEN_PROGRAM_ADDRESS
                      \<or> pid = TOKEN_2022_PROGRAM_ADDRESS
                      \<or> pid = ASSOCIATED_TOKEN_PROGRAM_ADDRESS))"
proof (cases "length (instructions message) < 2")
  case True
  with assms show ?thesis
    by (simp add: tb_validateNoFundLeak_def Let_def split: option.splits)
next
  case False
  then have "0 < length (instructions message)" by linarith
  then have first: "array_get (instructions message) 0 = Some (instructions message ! 0)"
    by (simp add: array_get_def)
  show ?thesis
  proof (cases "array_get (staticAccounts message) (programAddressIndex (instructions message ! 0))")
    case None
    with assms first show ?thesis
      by (simp add: tb_validateNoFundLeak_def Let_def)
  next
    case (Some programId)
    show ?thesis
    proof (cases "programId = []")
      case True
      with assms first Some program_addresses_nonempty show ?thesis
        by (simp add: tb_validateNoFundLeak_def Let_def)
    next
      case ne: False
      show ?thesis
      proof (cases sponsorAddress)
        case None
        with assms first Some ne False show ?thesis
          by (simp add: tb_validateNoFundLeak_def Let_def)
      next
        case sp: (Some sponsor)
        show ?thesis
        proof (cases "array_get (staticAccounts message) 0")
          case None
          with assms first Some ne False sp show ?thesis
            by (simp add: tb_validateNoFundLeak_def Let_def)
        next
          case fp: (Some feePayer)
          with assms first Some ne False sp show ?thesis
            by (auto simp add: tb_validateNoFundLeak_def Let_def)
        qed
      qed
    qed
  qed
qed

lemma tb_validateNoFundLeak_errors:
  "''Duplicate instruction detected'' \<notin> set (vr_errors (tb_validateNoFundLeak codecs tx sponsorAddress))"
  by (simp add: tb_validateNoFundLeak_def Let_def split: option.splits)

lemma tb_validateNoFundLeak_warnings:
  assumes "decodeTransaction codecs tx = Some decoded"
      and "decodeCompiledMessage codecs (messageBytes decoded) = Some message"
      and "vr_isValid (tb_validateNoFundLeak codecs tx sponsorAddress)"
  shows "vr_errors (tb_validateNoFundLeak codecs tx sponsorAddress) = []"
    and "''Duplicate instruction detected''
           \<in> set (vr_warnings (tb_validateNoFundLeak codecs tx sponsorAddress))
         \<longleftrightarrow> \<not> distinct (map instructionHash (instructions message))"
proof -
  let ?R = "tb_validateNoFundLeak codecs tx sponsorAddress"
  obtain firstInstruction programId where
    f: "array_get (instructions message) 0 = Some firstInstruction" and
    g: "array_get (staticAccounts message) (programAddressIndex firstInstruction) = Some programId" and
    h: "programId \<noteq> []"
    using assms by (auto simp: tb_validateNoFundLeak_def Let_def split: option.splits if_splits)
  have w: "vr_warnings ?R =
             (if length (instructions message) > 20
              then [''Transaction has unusually high instruction count''] else [])
             @ duplicateScan {} (instructions message)"
    using assms(1,2) f g h by (simp add: tb_validateNoFundLeak_def Let_def)
  show "vr_errors ?R = []"
    using assms f g h by (simp add: tb_validateNoFundLeak_def Let_def)
  show "''Duplicate instruction detected'' \<in> set (vr_warnings ?R)
         \<longleftrightarrow> \<not> distinct (map instructionHash (instructions message))"
    unfolding w using duplicateScan_detects [of "{}" "instructions message"] by simp
qed

text \<open>
  Claim C2. For a transaction that decodes, \<open>TransactionBuilder.validateNoFundLeak\<close> answers
  \<open>isValid\<close> exactly when (a) no sponsor address is supplied or account 0 of the message is
  that sponsor, (b) there are at least two instructions and (c) the program of the first
  instruction is the System, Token, Token-2022 or Associated-Token program; so each of the
  three violations gives \<open>isValid = false\<close>. Duplicates play no part in that: the duplicate
  message is never among the errors, and a valid result with repeated instructions stays valid
  and carries the warning.
\<close>

theorem tb_validateNoFundLeak_rejects:
  assumes "decodeTransaction codecs tx = Some decoded"
      and "decodeCompiledMessage codecs (messageBytes decoded) = Some message"
  shows "(vr_isValid (tb_validateNoFundLeak codecs tx sponsorAddress) \<longleftrightarrow>
           (\<forall>s. sponsorAddress = Some s \<and> s \<noteq> [] \<longrightarrow> array_get (staticAccounts message) 0 = Some s)
           \<and> 2 \<le> length (instructions message)
           \<and> (\<exists>pid. array_get (staticAccounts message)
                        (programAddressIndex (instructions message ! 0)) = Some pid
                 \<and> (pid = SYSTEM_PROGRAM_ADDRESS \<or> pid = TOKEN_PROGRAM_ADDRESS
                      \<or> pid = TOKEN_2022_PROGRAM_ADDRESS
                      \<or> pid = ASSOCIATED_TOKEN_PROGRAM_ADDRESS)))
       \<and> ''Duplicate instruction detected''
            \<notin> set (vr_errors (tb_validateNoFundLeak codecs tx sponsorAddress))
       \<and> (vr_isValid (tb_validateNoFundLeak codecs tx sponsorAddress) \<longrightarrow>
            vr_errors (tb_validateNoFundLeak codecs tx sponsorAddress) = []
            \<and> (''Duplicate instruction detected''
                  \<in> set (vr_warnings (tb_validateNoFundLeak codecs tx sponsorAddress))
               \<longleftrightarrow> \<not> distinct (map instructionHash (instructions message))))"
  using tb_validateNoFundLeak_valid_iff [OF assms, of sponsorAddress]
        tb_validateNoFundLeak_errors [of codecs tx sponsorAddress]
        tb_validateNoFundLeak_warnings [OF assms, of sponsorAddress]
  by blast

lemma sponsoredMessage_facts:
  "array_get (staticAccounts sponsoredMessage) 0 = Some ''sponsor''"
  "length (instructions sponsoredMessage) = 3"
  "array_get (staticAccounts sponsoredMessage)
     (programAddressIndex (instructions sponsoredMessage ! 0)) = Some SYSTEM_PROGRAM_ADDRESS"
  "\<not> distinct (map instructionHash (instructions sponsoredMessage))"
  by (simp_all add: sponsoredMessage_def array_get_def instructionHash_def)

theorem tb_validateNoFundLeak_rejects_witness:
  "decodeTransaction sponsoredCodecs [] = Some \<lparr>signatures = [''sponsor'', ''user''], messageBytes = []\<rparr>
   \<and> decodeCompiledMessage sponsoredCodecs
        (messageBytes \<lparr>signatures = [''sponsor'', ''user''], messageBytes = []\<rparr>) = Some sponsoredMessage
   \<and> vr_isValid (tb_validateNoFundLeak sponsoredCodecs [] (Some ''sponsor''))
   \<and> ''Duplicate instruction detected''
        \<in> set (vr_warnings (tb_validateNoFundLeak sponsoredCodecs [] (Some ''sponsor'')))
   \<and> \<not> vr_isValid (tb_validateNoFundLeak sponsoredCodecs [] (Some ''somebody else''))"
proof -
  let ?d = "\<lparr>signatures = [''sponsor'', ''user''], messageBytes = []\<rparr>"
  have d: "decodeTransaction sponsoredCodecs [] = Some ?d"
    by (simp add: sponsoredCodecs_def stubCodecs_def)
  have m: "decodeCompiledMessage sponsoredCodecs (messageBytes ?d) = Some sponsoredMessage"
    by (simp add: sponsoredCodecs_def stubCodecs_def)
  show ?thesis
    using tb_validateNoFundLeak_rejects [OF d m, of "Some ''sponsor''"]
          tb_validateNoFundLeak_rejects [OF d m, of "Some ''somebody else''"]
          d m sponsoredMessage_facts
    by simp
qed

subsection \<open>Blockhash replacement\<close>

lemma every_matches_iff:
  "every_matches existing oldBytes \<longleftrightarrow>
     (\<forall>i < length existing. i < length oldBytes \<and> oldBytes ! i = existing ! i)"
  by (auto simp: every_matches_def list_all_iff array_get_def)

lemma every_matches_same_length:
  assumes "length existing = length oldBytes"
  shows "every_matches existing oldBytes \<longleftrightarrow> existing = oldBytes"
  using assms by (auto simp: every_matches_iff intro: nth_equalityI)

lemma uint8_set_frame:
  assumes "uint8_set target src off = Inr out"
  shows "length out = length target"
    and "take (length src) (drop off out) = src"
    and "\<forall>i < length target. i < off \<or> off + length src \<le> i \<longrightarrow> out ! i = target ! i"
proof -
  from assms have fit: "off + length src \<le> length target"
    and out: "out = take off target @ src @ drop (off + length src) target"
    by (auto simp: uint8_set_def split: if_splits)
  from fit out show "length out = length target" by simp
  from fit out show "take (length src) (drop off out) = src" by simp
  show "\<forall>i < length target. i < off \<or> off + length src \<le> i \<longrightarrow> out ! i = target ! i"
  proof (intro allI impI)
    fix i assume i: "i < length target" and r: "i < off \<or> off + length src \<le> i"
    from r show "out ! i = target ! i"
    proof
      assume "i < off"
      with fit out show ?thesis by (simp add: nth_append)
    next
      assume a: "off + length src \<le> i"
      have la: "length (take off target) = off" using fit by simp
      have n1: "\<not> i < off" and n2: "\<not> i - off < length src" using a by linarith+
      have "out ! i = (src @ drop (off + length src) target) ! (i - off)"
        unfolding out using n1 la by (simp add: nth_append)
      also have "\<dots> = drop (off + length src) target ! (i - off - length src)"
        using n2 by (simp add: nth_append)
      also have "\<dots> = target ! i" using a i by simp
      finally show ?thesis .
    qed
  qed
qed

lemma replaceBlockhash_unfold:
  assumes "decodeTransaction codecs txBytes = Some decoded"
      and "decodeCompiledMessage codecs (messageBytes decoded) = Some compiledMsg"
      and "lifetimeToken compiledMsg \<noteq> blockhash"
      and "bs58_decode codecs (lifetimeToken compiledMsg) = Some oldBytes"
      and "bs58_decode codecs blockhash = Some newBytes"
  shows "replaceBlockhash codecs (Inr blockhash) txBytes =
           (if \<not> every_matches (take 32 (drop (blockhashOffset decoded compiledMsg txBytes) txBytes))
                    oldBytes
            then Inl (OtherError ''Blockhash offset mismatch - raw bytes do not match decoded blockhash'')
            else uint8_set txBytes newBytes (blockhashOffset decoded compiledMsg txBytes))"
  using assms by (simp add: replaceBlockhash_def Let_def)

lemma replaceBlockhash_noop:
  assumes "decodeTransaction codecs txBytes = Some decoded"
      and "decodeCompiledMessage codecs (messageBytes decoded) = Some compiledMsg"
      and "lifetimeToken compiledMsg = blockhash"
  shows "replaceBlockhash codecs (Inr blockhash) txBytes = Inr txBytes"
  using assms by (simp add: replaceBlockhash_def Let_def)

lemma replaceBlockhash_mismatch:
  assumes "decodeTransaction codecs txBytes = Some decoded"
      and "decodeCompiledMessage codecs (messageBytes decoded) = Some compiledMsg"
      and "lifetimeToken compiledMsg \<noteq> blockhash"
      and "bs58_decode codecs (lifetimeToken compiledMsg) = Some oldBytes"
      and "bs58_decode codecs blockhash = Some newBytes"
      and "length oldBytes = 32" and "length newBytes = 32"
      and "take 32 (drop (blockhashOffset decoded compiledMsg txBytes) txBytes) \<noteq> oldBytes"
  shows "\<exists>e. replaceBlockhash codecs (Inr blockhash) txBytes = Inl e"
proof -
  let ?off = "blockhashOffset decoded compiledMsg txBytes"
  let ?existing = "take 32 (drop ?off txBytes)"
  show ?thesis
  proof (cases "length ?existing = 32")
    case True
    with assms(6,8) have "\<not> every_matches ?existing oldBytes"
      by (simp add: every_matches_same_length)
    then show ?thesis
      unfolding replaceBlockhash_unfold [OF assms(1-5)] by simp
  next
    case False
    then have "?off + length newBytes > length txBytes"
      using assms(7) by auto
    then have "\<exists>e. uint8_set txBytes newBytes ?off = Inl e"
      by (simp add: uint8_set_def)
    then show ?thesis
      unfolding replaceBlockhash_unfold [OF assms(1-5)] by auto
  qed
qed

lemma replaceBlockhash_success:
  assumes "decodeTransaction codecs txBytes = Some decoded"
      and "decodeCompiledMessage codecs (messageBytes decoded) = Some compiledMsg"
      and "lifetimeToken compiledMsg \<noteq> blockhash"
      and "bs58_decode codecs (lifetimeToken compiledMsg) = Some oldBytes"
      and "bs58_decode codecs blockhash = Some newBytes"
      and "length oldBytes = 32" and "length newBytes = 32"
      and "take 32 (drop (blockhashOffset decoded compiledMsg txBytes) txBytes) = oldBytes"
  shows "replaceBlockhash codecs (Inr blockhash) txBytes =
           Inr (take (blockhashOffset decoded compiledMsg txBytes) txBytes @ newBytes
                @ drop (blockhashOffset decoded compiledMsg txBytes + 32) txBytes)"
proof -
  let ?off = "blockhashOffset decoded compiledMsg txBytes"
  have m: "every_matches (take 32 (drop ?off txBytes)) oldBytes"
    using assms(8) by (simp add: every_matches_iff)
  have "length (take 32 (drop ?off txBytes)) = 32"
    using assms(6,8) by simp
  then have fit: "?off + 32 \<le> length txBytes" by auto
  show ?thesis
    unfolding replaceBlockhash_unfold [OF assms(1-5)]
    using m fit assms(7) by (simp add: uint8_set_def)
qed

text \<open>
  Claim C4. Let the transaction decode, and let \<open>off\<close> be the offset computed from the
  signature count, the version prefix, the three header bytes and the static account count.
  If the fetched blockhash equals the decoded one, \<open>replaceBlockhash\<close> returns its input.
  Otherwise, for 32-byte blockhashes: if the 32 bytes at \<open>off\<close> differ from the decoded old
  blockhash the call throws; if they agree it returns a transaction of the same length that
  holds the new blockhash at \<open>off\<close> and agrees with the input at every index outside
  \<open>[off, off + 32)\<close>.
\<close>

theorem replaceBlockhash_frame:
  assumes "decodeTransaction codecs txBytes = Some decoded"
      and "decodeCompiledMessage codecs (messageBytes decoded) = Some compiledMsg"
  shows "(lifetimeToken compiledMsg = blockhash \<longrightarrow>
            replaceBlockhash codecs (Inr blockhash) txBytes = Inr txBytes)
       \<and> (lifetimeToken compiledMsg \<noteq> blockhash
          \<and> bs58_decode codecs (lifetimeToken compiledMsg) = Some oldBytes \<and> length oldBytes = 32
          \<and> bs58_decode codecs blockhash = Some newBytes \<and> length newBytes = 32 \<longrightarrow>
            (take 32 (drop (blockhashOffset decoded compiledMsg txBytes) txBytes) \<noteq> oldBytes \<longrightarrow>
               (\<exists>e. replaceBlockhash codecs (Inr blockhash) txBytes = Inl e))
          \<and> (take 32 (drop (blockhashOffset decoded compiledMsg txBytes) txBytes) = oldBytes \<longrightarrow>
               (\<exists>out. replaceBlockhash codecs (Inr blockhash) txBytes = Inr out
                  \<and> length out = length txBytes
                  \<and> take 32 (drop (blockhashOffset decoded compiledMsg txBytes) out) = newBytes
                  \<and> (\<forall>i < length txBytes.
                        i < blockhashOffset decoded compiledMsg txBytes
                        \<or> blockhashOffset decoded compiledMsg txBytes + 32 \<le> i \<longrightarrow>
                        out ! i = txBytes ! i))))"
proof (intro conjI impI)
  assume "lifetimeToken compiledMsg = blockhash"
  then show "replaceBlockhash codecs (Inr blockhash) txBytes = Inr txBytes"
    using replaceBlockhash_noop [OF assms] by simp
next
  assume h: "lifetimeToken compiledMsg \<noteq> blockhash
          \<and> bs58_decode codecs (lifetimeToken compiledMsg) = Some oldBytes \<and> length oldBytes = 32
          \<and> bs58_decode codecs blockhash = Some newBytes \<and> length newBytes = 32"
     and ne: "take 32 (drop (blockhashOffset decoded compiledMsg txBytes) txBytes) \<noteq> oldBytes"
  then show "\<exists>e. replaceBlockhash codecs (Inr blockhash) txBytes = Inl e"
    using replaceBlockhash_mismatch [OF assms] by blast
next
  let ?off = "blockhashOffset decoded compiledMsg txBytes"
  assume h: "lifetimeToken compiledMsg \<noteq> blockhash
          \<and> bs58_decode codecs (lifetimeToken compiledMsg) = Some oldBytes \<and> length oldBytes = 32
          \<and> bs58_decode codecs blockhash = Some newBytes \<and> length newBytes = 32"
     and eq: "take 32 (drop ?off txBytes) = oldBytes"
  let ?out = "take ?off txBytes @ newBytes @ drop (?off + 32) txBytes"
  have r: "replaceBlockhash codecs (Inr blockhash) txBytes = Inr ?out"
    using replaceBlockhash_success [OF assms] h eq by blast
  have "length (take 32 (drop ?off txBytes)) = 32" using h eq by simp
  then have fit: "?off + 32 \<le> length txBytes" by auto
  have u: "uint8_set txBytes newBytes ?off = Inr ?out"
    using fit h by (simp add: uint8_set_def)
  have "length ?out = length txBytes"
    using uint8_set_frame(1) [OF u] .
  moreover have "take 32 (drop ?off ?out) = newBytes"
    using uint8_set_frame(2) [OF u] h by simp
  moreover have "\<forall>i < length txBytes. i < ?off \<or> ?off + 32 \<le> i \<longrightarrow> ?out ! i = txBytes ! i"
    using uint8_set_frame(3) [OF u] h by simp
  ultimately show "\<exists>out. replaceBlockhash codecs (Inr blockhash) txBytes = Inr out
                  \<and> length out = length txBytes
                  \<and> take 32 (drop ?off out) = newBytes
                  \<and> (\<forall>i < length txBytes. i < ?off \<or> ?off + 32 \<le> i \<longrightarrow> out ! i = txBytes ! i)"
    using r by blast
qed

lemma legacy_facts:
  "decodeTransaction legacyCodecs legacyTx = Some legacyDecoded"
  "decodeCompiledMessage legacyCodecs (messageBytes legacyDecoded) = Some legacyMessage"
  "lifetimeToken legacyMessage = ''old''"
  "bs58_decode legacyCodecs ''old'' = Some (replicate 32 9)"
  "bs58_decode legacyCodecs ''new'' = Some (replicate 32 5)"
  by (simp_all add: legacyCodecs_def stubCodecs_def legacyMessage_def)

lemma legacy_offset: "blockhashOffset legacyDecoded legacyMessage legacyTx = 101"
  by (simp add: blockhashOffset_def legacyDecoded_def legacyMessage_def legacyTx_def
                array_get_def Let_def nth_append)

lemma legacy_existing: "take 32 (drop 101 legacyTx) = replicate 32 9"
  by (simp add: legacyTx_def)

theorem replaceBlockhash_frame_witness:
  "decodeTransaction legacyCodecs legacyTx = Some legacyDecoded
   \<and> decodeCompiledMessage legacyCodecs (messageBytes legacyDecoded) = Some legacyMessage
   \<and> blockhashOffset legacyDecoded legacyMessage legacyTx = 101
   \<and> take 32 (drop 101 legacyTx) = replicate 32 9
   \<and> replaceBlockhash legacyCodecs (Inr ''old'') legacyTx = Inr legacyTx
   \<and> (\<exists>out. replaceBlockhash legacyCodecs (Inr ''new'') legacyTx = Inr out
          \<and> length out = length legacyTx
          \<and> take 32 (drop 101 out) = replicate 32 5
          \<and> out ! 100 = legacyTx ! 100 \<and> out ! 133 = legacyTx ! 133)
   \<and> (\<exists>e. replaceBlockhash
              (stubCodecs legacyDecoded legacyMessage
                 [''old'' \<mapsto> replicate 32 8, ''new'' \<mapsto> replicate 32 5])
              (Inr ''new'') legacyTx = Inl e)"
proof -
  let ?wrong = "stubCodecs legacyDecoded legacyMessage
                  [''old'' \<mapsto> replicate 32 8, ''new'' \<mapsto> replicate 32 5]"
  have w: "decodeTransaction ?wrong legacyTx = Some legacyDecoded"
          "decodeCompiledMessage ?wrong (messageBytes legacyDecoded) = Some legacyMessage"
          "bs58_decode ?wrong ''old'' = Some (replicate 32 8)"
          "bs58_decode ?wrong ''new'' = Some (replicate 32 5)"
    by (simp_all add: stubCodecs_def)
  have mismatch: "\<exists>e. replaceBlockhash ?wrong (Inr ''new'') legacyTx = Inl e"
    using replaceBlockhash_frame [OF w(1,2), of "''new''" "replicate 32 8" "replicate 32 5"]
          w legacy_facts(3) legacy_offset legacy_existing
    by simp
  have len: "length legacyTx = 134" by (simp add: legacyTx_def)
  have same: "replaceBlockhash legacyCodecs (Inr ''old'') legacyTx = Inr legacyTx"
    using replaceBlockhash_frame [OF legacy_facts(1,2), of "''old''" "replicate 32 9" "replicate 32 9"]
          legacy_facts
    by simp
  obtain out where o: "replaceBlockhash legacyCodecs (Inr ''new'') legacyTx = Inr out"
      "length out = length legacyTx" "take 32 (drop 101 out) = replicate 32 5"
      and frame: "\<forall>i < length legacyTx. i < 101 \<or> 101 + 32 \<le> i \<longrightarrow> out ! i = legacyTx ! i"
    using replaceBlockhash_frame [OF legacy_facts(1,2), of "''new''" "replicate 32 9" "replicate 32 5"]
          legacy_facts legacy_offset legacy_existing
    by auto
  have "out ! 100 = legacyTx ! 100" "out ! 133 = legacyTx ! 133"
    using frame len by simp_all
  with o same mismatch legacy_facts legacy_offset legacy_existing show ?thesis by simp
qed


subsection \<open>Sorting with a comparator\<close>

lemma mset_js_insert: "mset (js_insert cmp x ys) = add_mset x (mset ys)"
  by (induction ys) auto

lemma mset_js_sort: "mset (js_sort cmp xs) = mset xs"
  by (induction xs) (auto simp: js_sort_def mset_js_insert)

lemma set_js_sort: "set (js_sort cmp xs) = set xs"
  using mset_js_sort [of cmp xs] by (metis set_mset_mset)

lemma length_js_sort: "length (js_sort cmp xs) = length xs"
  using mset_js_sort [of cmp xs] by (metis size_mset)



subsection \<open>Aggregation of quotes\<close>

lemma eligible_set:
  "set (map fst (filter snd (map (supportCheck params) ps)))
     = {p \<in> set ps. supportsRoute p params \<noteq> Inr False}"
  by (induction ps) (auto simp: supportCheck_def split: sum.splits)

lemma fetchedQuotes_set:
  "set (fetchedQuotes params ps) = {q. \<exists>p \<in> set ps. getQuote p params = Inr q}"
  by (induction ps) (auto simp: fetchedQuotes_def split: sum.splits)

lemma set_rankQuotes: "set (rankQuotes qs) = set qs"
  by (simp add: rankQuotes_def set_js_sort)

lemma length_rankQuotes: "length (rankQuotes qs) = length qs"
  by (simp add: rankQuotes_def length_js_sort)

lemma selectRecommendedQuote_returns:
  assumes "ranked \<noteq> []"
  shows "\<exists>r. selectRecommendedQuote ranked = Inr r \<and> r \<in> set ranked"
proof (cases "length ranked = 1")
  case True
  then show ?thesis by (simp add: selectRecommendedQuote_def)
next
  case False
  let ?scored = "map (\<lambda>quote. (quote, quoteScore ranked quote)) ranked"
  let ?sorted = "js_sort (\<lambda>a b. js_sub (snd b) (snd a)) ?scored"
  have "length ?sorted = length ranked" by (simp add: length_js_sort)
  with assms obtain first rest where s: "?sorted = first # rest"
    by (cases ?sorted) auto
  then have "first \<in> set ?scored"
    using set_js_sort [of "\<lambda>a b. js_sub (snd b) (snd a)" ?scored] by (metis list.set_intros(1))
  then have "fst first \<in> set ranked" by auto
  with s False show ?thesis by (simp add: selectRecommendedQuote_def Let_def)
qed

lemma getAggregatedQuotes_cases:
  fixes reg params
  defines "eligible \<equiv> map fst (filter snd (map (supportCheck params) (getAllProviders reg)))"
  shows "(fetchedQuotes params eligible = [] \<longrightarrow> (\<exists>e. getAggregatedQuotes reg params = Inl e))
       \<and> (fetchedQuotes params eligible \<noteq> [] \<longrightarrow>
            (\<exists>rec. getAggregatedQuotes reg params =
               Inr \<lparr>quotes = rankQuotes (fetchedQuotes params eligible),
                    bestQuote = rankQuotes (fetchedQuotes params eligible) ! 0,
                    recommendedQuote = rec,
                    providerResults = noRouteResults params (getAllProviders reg)
                                      @ map (quoteResult params) eligible\<rparr>))"
proof (intro conjI impI)
  assume "fetchedQuotes params eligible = []"
  then show "\<exists>e. getAggregatedQuotes reg params = Inl e"
    unfolding eligible_def by (simp add: getAggregatedQuotes_def Let_def)
next
  assume ne: "fetchedQuotes params eligible \<noteq> []"
  then have e: "eligible \<noteq> []" by (auto simp: fetchedQuotes_def)
  then have p: "getAllProviders reg \<noteq> []" unfolding eligible_def by auto
  from ne have "rankQuotes (fetchedQuotes params eligible) \<noteq> []"
    using length_rankQuotes [of "fetchedQuotes params eligible"] by auto
  then obtain r where "selectRecommendedQuote (rankQuotes (fetchedQuotes params eligible)) = Inr r"
    using selectRecommendedQuote_returns by blast
  with ne e p show "\<exists>rec. getAggregatedQuotes reg params =
               Inr \<lparr>quotes = rankQuotes (fetchedQuotes params eligible),
                    bestQuote = rankQuotes (fetchedQuotes params eligible) ! 0,
                    recommendedQuote = rec,
                    providerResults = noRouteResults params (getAllProviders reg)
                                      @ map (quoteResult params) eligible\<rparr>"
    unfolding eligible_def by (simp add: getAggregatedQuotes_def Let_def)
qed

text \<open>
  Claim C6. Every registered provider is probed; a provider is asked for a quote unless its
  probe answered \<open>false\<close>, so one whose probe throws is asked, and its quote, when it comes,
  is part of the result. A provider that was asked and failed appears in \<open>providerResults\<close>
  with status \<open>error\<close> and its message, and the quote list holds exactly the quotes that
  the asked providers returned. The aggregation throws exactly when no asked provider
  returned a quote.
\<close>

theorem getAggregatedQuotes_tolerates_failures:
  "(\<forall>p \<in> set (getAllProviders reg). \<forall>q.
       (\<exists>e. supportsRoute p params = Inl e) \<and> getQuote p params = Inr q \<longrightarrow>
       (\<exists>r. getAggregatedQuotes reg params = Inr r \<and> q \<in> set (quotes r)
             \<and> \<lparr>pr_provider = name p, pr_status = success, pr_error = None\<rparr>
                  \<in> set (providerResults r)))
   \<and> (\<forall>p \<in> set (getAllProviders reg). \<forall>e.
       supportsRoute p params \<noteq> Inr False \<and> getQuote p params = Inl e
       \<and> getAggregatedQuotes reg params = Inr r \<longrightarrow>
       \<lparr>pr_provider = name p, pr_status = error_status, pr_error = Some (errorMessage e)\<rparr>
         \<in> set (providerResults r))
   \<and> (getAggregatedQuotes reg params = Inr r \<longrightarrow>
       set (quotes r) = {q. \<exists>p \<in> set (getAllProviders reg).
                             supportsRoute p params \<noteq> Inr False \<and> getQuote p params = Inr q})
   \<and> ((\<exists>e. getAggregatedQuotes reg params = Inl e) \<longleftrightarrow>
       \<not> (\<exists>p \<in> set (getAllProviders reg).
             supportsRoute p params \<noteq> Inr False \<and> (\<exists>q. getQuote p params = Inr q)))"
proof -
  let ?el = "map fst (filter snd (map (supportCheck params) (getAllProviders reg)))"
  let ?fq = "fetchedQuotes params ?el"
  have el: "set ?el = {p \<in> set (getAllProviders reg). supportsRoute p params \<noteq> Inr False}"
    by (rule eligible_set)
  have fq: "set ?fq = {q. \<exists>p \<in> set (getAllProviders reg).
                             supportsRoute p params \<noteq> Inr False \<and> getQuote p params = Inr q}"
    unfolding fetchedQuotes_set el by blast
  note cs = getAggregatedQuotes_cases [of params reg]
  have shape: "getAggregatedQuotes reg params = Inr r' \<Longrightarrow>
                 quotes r' = rankQuotes ?fq
                 \<and> providerResults r' = noRouteResults params (getAllProviders reg)
                                          @ map (quoteResult params) ?el" for r'
    using cs by (cases "?fq = []") auto
  have c1: "\<forall>p \<in> set (getAllProviders reg). \<forall>q.
       (\<exists>e. supportsRoute p params = Inl e) \<and> getQuote p params = Inr q \<longrightarrow>
       (\<exists>r. getAggregatedQuotes reg params = Inr r \<and> q \<in> set (quotes r)
             \<and> \<lparr>pr_provider = name p, pr_status = success, pr_error = None\<rparr>
                  \<in> set (providerResults r))"
  proof (intro ballI allI impI)
    fix p q
    assume p: "p \<in> set (getAllProviders reg)"
       and h: "(\<exists>e. supportsRoute p params = Inl e) \<and> getQuote p params = Inr q"
    then have pel: "p \<in> set ?el" unfolding el by auto
    with h have qin: "q \<in> set ?fq" unfolding fetchedQuotes_set by blast
    then have "?fq \<noteq> []" by auto
    with cs obtain r where r: "getAggregatedQuotes reg params = Inr r" by blast
    have "quoteResult params p = \<lparr>pr_provider = name p, pr_status = success, pr_error = None\<rparr>"
      using h by (simp add: quoteResult_def)
    then have "\<lparr>pr_provider = name p, pr_status = success, pr_error = None\<rparr>
                 \<in> set (map (quoteResult params) ?el)"
      using pel by (metis image_eqI list.set_map)
    with shape [OF r] qin r show "\<exists>r. getAggregatedQuotes reg params = Inr r \<and> q \<in> set (quotes r)
             \<and> \<lparr>pr_provider = name p, pr_status = success, pr_error = None\<rparr>
                  \<in> set (providerResults r)"
      by (auto simp: set_rankQuotes)
  qed
  have c2: "\<forall>p \<in> set (getAllProviders reg). \<forall>e.
       supportsRoute p params \<noteq> Inr False \<and> getQuote p params = Inl e
       \<and> getAggregatedQuotes reg params = Inr r \<longrightarrow>
       \<lparr>pr_provider = name p, pr_status = error_status, pr_error = Some (errorMessage e)\<rparr>
         \<in> set (providerResults r)"
  proof (intro ballI allI impI)
    fix p e
    assume p: "p \<in> set (getAllProviders reg)"
       and h: "supportsRoute p params \<noteq> Inr False \<and> getQuote p params = Inl e
               \<and> getAggregatedQuotes reg params = Inr r"
    then have pel: "p \<in> set ?el" unfolding el by auto
    have "quoteResult params p
            = \<lparr>pr_provider = name p, pr_status = error_status, pr_error = Some (errorMessage e)\<rparr>"
      using h by (simp add: quoteResult_def)
    then have "\<lparr>pr_provider = name p, pr_status = error_status, pr_error = Some (errorMessage e)\<rparr>
                 \<in> set (map (quoteResult params) ?el)"
      using pel by (metis image_eqI list.set_map)
    with shape [of r] h show
      "\<lparr>pr_provider = name p, pr_status = error_status, pr_error = Some (errorMessage e)\<rparr>
         \<in> set (providerResults r)"
      by auto
  qed
  have c3: "getAggregatedQuotes reg params = Inr r \<longrightarrow>
       set (quotes r) = {q. \<exists>p \<in> set (getAllProviders reg).
                             supportsRoute p params \<noteq> Inr False \<and> getQuote p params = Inr q}"
    using shape [of r] fq by (auto simp: set_rankQuotes)
  have "(\<exists>e. getAggregatedQuotes reg params = Inl e) \<longleftrightarrow> ?fq = []"
    using cs by (cases "?fq = []") auto
  also have "\<dots> \<longleftrightarrow> set ?fq = {}" by simp
  also have "\<dots> \<longleftrightarrow> \<not> (\<exists>p \<in> set (getAllProviders reg).
             supportsRoute p params \<noteq> Inr False \<and> (\<exists>q. getQuote p params = Inr q))"
    unfolding fq by blast
  finally have c4: "(\<exists>e. getAggregatedQuotes reg params = Inl e) \<longleftrightarrow>
       \<not> (\<exists>p \<in> set (getAllProviders reg).
             supportsRoute p params \<noteq> Inr False \<and> (\<exists>q. getQuote p params = Inr q))" .
  from c1 c2 c3 c4 show ?thesis by blast
qed

lemma mockRegistry_providers:
  "getAllProviders mockRegistry = [flakyProbe, badProvider, noRouteProvider]"
  by (simp add: mockRegistry_def register_def getAllProviders_def flakyProbe_def badProvider_def
                noRouteProvider_def mockProvider_def)

lemma mockRegistry_calls:
  "supportsRoute flakyProbe mockParams = Inl (OtherError ''probe timeout'')"
  "getQuote flakyProbe mockParams = Inr (mockQuote ''flaky-probe'' ''1000'' 300 ''10'' 30000)"
  "supportsRoute badProvider mockParams = Inr True"
  "getQuote badProvider mockParams = Inl (OtherError ''Provider error'')"
  "supportsRoute noRouteProvider mockParams = Inr False"
  "name flakyProbe = ''flaky-probe''" "name badProvider = ''bad-provider''"
  "name noRouteProvider = ''no-route''"
  by (simp_all add: flakyProbe_def badProvider_def noRouteProvider_def mockProvider_def)

lemma mockRegistry_aggregate:
  "getAggregatedQuotes mockRegistry mockParams =
     Inr \<lparr>quotes = [mockQuote ''flaky-probe'' ''1000'' 300 ''10'' 30000],
          bestQuote = mockQuote ''flaky-probe'' ''1000'' 300 ''10'' 30000,
          recommendedQuote = mockQuote ''flaky-probe'' ''1000'' 300 ''10'' 30000,
          providerResults =
            [\<lparr>pr_provider = ''no-route'', pr_status = no_route, pr_error = None\<rparr>,
             \<lparr>pr_provider = ''flaky-probe'', pr_status = success, pr_error = None\<rparr>,
             \<lparr>pr_provider = ''bad-provider'', pr_status = error_status,
              pr_error = Some ''Provider error''\<rparr>]\<rparr>"
  by (simp add: getAggregatedQuotes_def mockRegistry_providers mockRegistry_calls Let_def
                supportCheck_def noRouteResults_def quoteResult_def fetchedQuotes_def
                rankQuotes_def js_sort_def selectRecommendedQuote_def)


theorem getAggregatedQuotes_tolerates_failures_witness:
  "flakyProbe \<in> set (getAllProviders mockRegistry)
   \<and> (\<exists>e. supportsRoute flakyProbe mockParams = Inl e)
   \<and> getQuote flakyProbe mockParams = Inr (mockQuote ''flaky-probe'' ''1000'' 300 ''10'' 30000)
   \<and> (\<exists>r. getAggregatedQuotes mockRegistry mockParams = Inr r
          \<and> mockQuote ''flaky-probe'' ''1000'' 300 ''10'' 30000 \<in> set (quotes r)
          \<and> \<lparr>pr_provider = ''flaky-probe'', pr_status = success, pr_error = None\<rparr>
               \<in> set (providerResults r)
          \<and> badProvider \<in> set (getAllProviders mockRegistry)
          \<and> supportsRoute badProvider mockParams \<noteq> Inr False
          \<and> getQuote badProvider mockParams = Inl (OtherError ''Provider error'')
          \<and> \<lparr>pr_provider = ''bad-provider'', pr_status = error_status,
              pr_error = Some ''Provider error''\<rparr> \<in> set (providerResults r))
   \<and> \<not> (\<exists>e. getAggregatedQuotes mockRegistry mockParams = Inl e)"
proof -
  let ?q = "mockQuote ''flaky-probe'' ''1000'' 300 ''10'' 30000"
  let ?r = "\<lparr>quotes = [?q], bestQuote = ?q, recommendedQuote = ?q,
          providerResults =
            [\<lparr>pr_provider = ''no-route'', pr_status = no_route, pr_error = None\<rparr>,
             \<lparr>pr_provider = ''flaky-probe'', pr_status = success, pr_error = None\<rparr>,
             \<lparr>pr_provider = ''bad-provider'', pr_status = error_status,
              pr_error = Some ''Provider error''\<rparr>]\<rparr>"
  note t = getAggregatedQuotes_tolerates_failures [of mockRegistry mockParams ?r]
  have m: "flakyProbe \<in> set (getAllProviders mockRegistry)"
          "badProvider \<in> set (getAllProviders mockRegistry)"
    by (simp_all add: mockRegistry_providers)
  have b: "supportsRoute badProvider mockParams \<noteq> Inr False"
    by (simp add: mockRegistry_calls)
  from t m(1) mockRegistry_calls(1,2)
  have "\<exists>r. getAggregatedQuotes mockRegistry mockParams = Inr r \<and> ?q \<in> set (quotes r)
             \<and> \<lparr>pr_provider = name flakyProbe, pr_status = success, pr_error = None\<rparr>
                  \<in> set (providerResults r)"
    by blast
  moreover from t m(2) b mockRegistry_calls(4) mockRegistry_aggregate
  have "\<lparr>pr_provider = name badProvider, pr_status = error_status,
         pr_error = Some (errorMessage (OtherError ''Provider error''))\<rparr> \<in> set (providerResults ?r)"
    by blast
  ultimately show ?thesis
    using m b mockRegistry_calls mockRegistry_aggregate by auto
qed


subsection \<open>Ranking and recommendation\<close>





















subsection \<open>Pending swaps: prepare and execute\<close>

lemma prepareSwapBody_frame:
  "swapRows (snd (prepareSwapBody env quote wallet feeTok st)) = swapRows st
   \<and> sentTransactions (snd (prepareSwapBody env quote wallet feeTok st)) = sentTransactions st
   \<and> activeMonitors (snd (prepareSwapBody env quote wallet feeTok st)) = activeMonitors st"
  by (simp add: prepareSwapBody_def Let_def split: option.splits sum.splits prod.splits)

lemma prepareSwapBody_stores:
  assumes "fst (prepareSwapBody env quote wallet feeTok st) = Inr p"
  shows "\<exists>entry. pendingSwaps (snd (prepareSwapBody env quote wallet feeTok st)) (prep_swapId p)
                    = Some entry
               \<and> pending_validUntil entry = prep_validUntil p
               \<and> prep_validUntil p = pe_now env + QUOTE_EXPIRY_SECONDS * 1000
               \<and> prep_swapId p = pe_randomUUID env"
  using assms
  by (auto simp: prepareSwapBody_def Let_def split: option.splits sum.splits prod.splits if_splits)

lemma prepareSwap_frame:
  "swapRows (snd (prepareSwap env quote wallet feeTok st)) = swapRows st
   \<and> sentTransactions (snd (prepareSwap env quote wallet feeTok st)) = sentTransactions st"
proof -
  let ?st0 = "st\<lparr>pendingSwaps := cleanupExpiredPendingSwaps (pe_now env) (pendingSwaps st)\<rparr>"
  have "snd (prepareSwap env quote wallet feeTok st) = snd (prepareSwapBody env quote wallet feeTok ?st0)"
    by (simp add: prepareSwap_def Let_def split: prod.splits sum.splits)
  then show ?thesis using prepareSwapBody_frame [of env quote wallet feeTok ?st0] by simp
qed

lemma prepareSwap_stores:
  assumes "fst (prepareSwap env quote wallet feeTok st) = Inr p"
  shows "\<exists>entry. pendingSwaps (snd (prepareSwap env quote wallet feeTok st)) (prep_swapId p) = Some entry
               \<and> pending_validUntil entry = prep_validUntil p
               \<and> prep_validUntil p = pe_now env + QUOTE_EXPIRY_SECONDS * 1000"
proof -
  let ?st0 = "st\<lparr>pendingSwaps := cleanupExpiredPendingSwaps (pe_now env) (pendingSwaps st)\<rparr>"
  have s: "snd (prepareSwap env quote wallet feeTok st) = snd (prepareSwapBody env quote wallet feeTok ?st0)"
    by (simp add: prepareSwap_def Let_def split: prod.splits sum.splits)
  have "fst (prepareSwapBody env quote wallet feeTok ?st0) = Inr p"
    using assms by (auto simp: prepareSwap_def Let_def split: prod.splits sum.splits)
  from prepareSwapBody_stores [OF this] s show ?thesis by auto
qed

lemma executeSwapTry_pending:
  "pendingSwaps (snd (executeSwapTry env swapId txBytes pending st)) swapId = None
   \<or> (\<exists>e. executeSwapTry env swapId txBytes pending st = (Inl e, st))"
  by (auto simp: executeSwapTry_def Let_def deletePending_def updateStatus_def
           split: option.splits)

lemma executeSwap_consumes:
  "pendingSwaps (snd (executeSwap env swapId txBytes st)) swapId = None"
proof (cases "pendingSwaps st swapId")
  case None
  then show ?thesis by (simp add: executeSwap_def)
next
  case (Some pending)
  show ?thesis
  proof (cases "ee_now env > pending_validUntil pending")
    case True
    with Some show ?thesis by (simp add: executeSwap_def deletePending_def)
  next
    case False
    from executeSwapTry_pending [of env swapId txBytes pending st] show ?thesis
    proof
      assume a: "pendingSwaps (snd (executeSwapTry env swapId txBytes pending st)) swapId = None"
      with Some False show ?thesis
        by (auto simp: executeSwap_def Let_def deletePending_def split: prod.splits sum.splits)
    next
      assume "\<exists>e. executeSwapTry env swapId txBytes pending st = (Inl e, st)"
      with Some False show ?thesis
        by (auto simp: executeSwap_def Let_def deletePending_def)
    qed
  qed
qed

lemma executeSwap_missing:
  assumes "pendingSwaps st swapId = None"
  shows "executeSwap env swapId txBytes st = (Inl (NotFoundError ''Swap'' swapId), st)"
  using assms by (simp add: executeSwap_def)

lemma executeSwap_expired:
  assumes "pendingSwaps st swapId = Some pending" and "ee_now env > pending_validUntil pending"
  shows "executeSwap env swapId txBytes st = (Inl QuoteExpiredError, deletePending swapId st)"
  using assms by (simp add: executeSwap_def)


lemma validateQuote_same:
  "validateQuoteDrift (validateQuote 0 (Inr quoteP1) quoteP1) MAX_QUOTE_DRIFT"
  by (simp add: validateQuoteDrift_def validateQuote_def quoteP1_def mockQuote_def
                parseFloat_examples js_abs_def js_div_def js_sub_def js_le_def MAX_QUOTE_DRIFT_def
                Let_def)

lemma replaceBlockhash_legacy_same:
  "replaceBlockhash legacyCodecs (Inr ''old'') legacyTx = Inr legacyTx"
  using replaceBlockhash_noop [OF legacy_facts(1,2)] legacy_facts(3) by simp

lemma prepareSwap_direct_fst:
  "fst (prepareSwap directEnv quoteP1 ''wallet1'' SOL emptySystem)
     = Inr \<lparr>prep_quote = quoteP1, prep_transaction = legacyTx,
            prep_userFee = \<lparr>token = SOL, amount = 0, valueUSD = 0\<rparr>,
            prep_sponsorCosts = mockCosts, prep_validUntil = 30000, prep_swapId = ''swap-1''\<rparr>"
  by (simp add: prepareSwap_def prepareSwapBody_def prepareTransaction_def directEnv_def
                emptySystem_def validateQuote_same replaceBlockhash_legacy_same Let_def
                QUOTE_EXPIRY_SECONDS_def)

lemma prepareSwap_direct_pending:
  "\<exists>entry. pendingSwaps (snd (prepareSwap directEnv quoteP1 ''wallet1'' SOL emptySystem)) ''swap-1''
             = Some entry \<and> pending_validUntil entry = 30000"
  using prepareSwap_stores [OF prepareSwap_direct_fst] by auto


text \<open>
  Claim C3 as stated fails for an expired id that is still cached.
  A swap is prepared in direct mode at time 0 and confirmed at time 40000, after its
  validity of 30 seconds and with no sweep in between: the confirmation fails with the
  quote-expired error (code \<open>QUOTE_ERROR\<close>, status 400), not with a not-found error.
\<close>

theorem executeSwap_expired_is_not_found_counterexample:
  "fst (executeSwap (confirmEnv 40000) ''swap-1'' legacyTx
          (snd (prepareSwap directEnv quoteP1 ''wallet1'' SOL emptySystem)))
     = Inl QuoteExpiredError
   \<and> QuoteExpiredError \<noteq> NotFoundError ''Swap'' ''swap-1''
   \<and> errorCode QuoteExpiredError = ''QUOTE_ERROR''
   \<and> statusCode QuoteExpiredError = 400"
proof -
  obtain entry where e: "pendingSwaps (snd (prepareSwap directEnv quoteP1 ''wallet1'' SOL emptySystem))
                           ''swap-1'' = Some entry"
      and v: "pending_validUntil entry = 30000"
    using prepareSwap_direct_pending by blast
  have "ee_now (confirmEnv 40000) > pending_validUntil entry"
    using v by (simp add: confirmEnv_def)
  from executeSwap_expired [OF e this] show ?thesis by simp
qed

text \<open>
  Claim C3, amended. \<open>prepareSwap\<close> leaves the durable table and the list of submitted
  transactions as they were, and on success its result is stored under the returned id in
  the pending cache. Whatever its outcome, \<open>executeSwap\<close> leaves no pending entry under its
  id, so a second \<open>executeSwap\<close> on that id returns the not-found error and changes nothing.
  An \<open>executeSwap\<close> on an id without pending entry returns the not-found error and changes
  nothing. An \<open>executeSwap\<close> on an entry that is still cached but expired returns the
  quote-expired error and only removes the entry: nothing is submitted and no row is created.
\<close>

theorem swap_lifecycle:
  "swapRows (snd (prepareSwap penv quote wallet feeTok st)) = swapRows st
   \<and> sentTransactions (snd (prepareSwap penv quote wallet feeTok st)) = sentTransactions st
   \<and> (\<forall>p. fst (prepareSwap penv quote wallet feeTok st) = Inr p \<longrightarrow>
         (\<exists>entry. pendingSwaps (snd (prepareSwap penv quote wallet feeTok st)) (prep_swapId p)
                     = Some entry
                \<and> pending_validUntil entry = prep_validUntil p))
   \<and> pendingSwaps (snd (executeSwap env swapId txBytes st)) swapId = None
   \<and> executeSwap env' swapId txBytes' (snd (executeSwap env swapId txBytes st))
        = (Inl (NotFoundError ''Swap'' swapId), snd (executeSwap env swapId txBytes st))
   \<and> (pendingSwaps st swapId = None \<longrightarrow>
         executeSwap env swapId txBytes st = (Inl (NotFoundError ''Swap'' swapId), st))
   \<and> (\<forall>pending. pendingSwaps st swapId = Some pending \<and> ee_now env > pending_validUntil pending \<longrightarrow>
         executeSwap env swapId txBytes st = (Inl QuoteExpiredError, deletePending swapId st)
         \<and> swapRows (deletePending swapId st) = swapRows st
         \<and> sentTransactions (deletePending swapId st) = sentTransactions st)"
proof (intro conjI allI impI)
  show "swapRows (snd (prepareSwap penv quote wallet feeTok st)) = swapRows st"
    using prepareSwap_frame by blast
  show "sentTransactions (snd (prepareSwap penv quote wallet feeTok st)) = sentTransactions st"
    using prepareSwap_frame by blast
  show "\<exists>entry. pendingSwaps (snd (prepareSwap penv quote wallet feeTok st)) (prep_swapId p)
                     = Some entry
                \<and> pending_validUntil entry = prep_validUntil p"
    if "fst (prepareSwap penv quote wallet feeTok st) = Inr p" for p
    using prepareSwap_stores [OF that] by blast
  show c: "pendingSwaps (snd (executeSwap env swapId txBytes st)) swapId = None"
    by (rule executeSwap_consumes)
  show "executeSwap env' swapId txBytes' (snd (executeSwap env swapId txBytes st))
        = (Inl (NotFoundError ''Swap'' swapId), snd (executeSwap env swapId txBytes st))"
    by (rule executeSwap_missing [OF c])
  show "executeSwap env swapId txBytes st = (Inl (NotFoundError ''Swap'' swapId), st)"
    if "pendingSwaps st swapId = None"
    by (rule executeSwap_missing [OF that])
next
  fix pending
  assume h: "pendingSwaps st swapId = Some pending \<and> ee_now env > pending_validUntil pending"
  then show "executeSwap env swapId txBytes st = (Inl QuoteExpiredError, deletePending swapId st)"
    using executeSwap_expired by blast
  show "swapRows (deletePending swapId st) = swapRows st"
    by (simp add: deletePending_def)
  show "sentTransactions (deletePending swapId st) = sentTransactions st"
    by (simp add: deletePending_def)
qed

lemma executeSwap_direct_first:
  "fst (executeSwap (confirmEnv 1000) ''swap-1'' legacyTx
          (snd (prepareSwap directEnv quoteP1 ''wallet1'' SOL emptySystem)))
     = Inr \<lparr>er_swapId = ''swap-1'', er_status = submitted, er_signature = Some ''sig'',
            er_error = None\<rparr>"
proof -
  let ?st = "snd (prepareSwap directEnv quoteP1 ''wallet1'' SOL emptySystem)"
  obtain entry where e: "pendingSwaps ?st ''swap-1'' = Some entry"
      and v: "pending_validUntil entry = 30000"
    using prepareSwap_direct_pending by blast
  have t: "cd_userFeeToken (createData entry) = SOL"
    using e
    by (simp add: prepareSwap_def prepareSwapBody_def prepareTransaction_def directEnv_def
                  emptySystem_def validateQuote_same replaceBlockhash_legacy_same Let_def
                  QUOTE_EXPIRY_SECONDS_def cleanupExpiredPendingSwaps_def)
       (auto)
  show ?thesis
    using e v t
    by (simp add: executeSwap_def executeSwapTry_def confirmEnv_def Let_def)
qed

theorem swap_lifecycle_witness:
  "fst (prepareSwap directEnv quoteP1 ''wallet1'' SOL emptySystem)
     = Inr \<lparr>prep_quote = quoteP1, prep_transaction = legacyTx,
            prep_userFee = \<lparr>token = SOL, amount = 0, valueUSD = 0\<rparr>,
            prep_sponsorCosts = mockCosts, prep_validUntil = 30000, prep_swapId = ''swap-1''\<rparr>
   \<and> (\<exists>entry. pendingSwaps (snd (prepareSwap directEnv quoteP1 ''wallet1'' SOL emptySystem))
                 ''swap-1'' = Some entry \<and> pending_validUntil entry = 30000)
   \<and> swapRows (snd (prepareSwap directEnv quoteP1 ''wallet1'' SOL emptySystem)) = Map.empty
   \<and> fst (executeSwap (confirmEnv 1000) ''swap-1'' legacyTx
          (snd (prepareSwap directEnv quoteP1 ''wallet1'' SOL emptySystem)))
       = Inr \<lparr>er_swapId = ''swap-1'', er_status = submitted, er_signature = Some ''sig'',
              er_error = None\<rparr>
   \<and> fst (executeSwap (confirmEnv 2000) ''swap-1'' legacyTx
          (snd (executeSwap (confirmEnv 1000) ''swap-1'' legacyTx
             (snd (prepareSwap directEnv quoteP1 ''wallet1'' SOL emptySystem)))))
       = Inl (NotFoundError ''Swap'' ''swap-1'')
   \<and> pendingSwaps emptySystem ''swap-1'' = None
   \<and> executeSwap (confirmEnv 1000) ''swap-1'' legacyTx emptySystem
       = (Inl (NotFoundError ''Swap'' ''swap-1''), emptySystem)"
proof -
  let ?st = "snd (prepareSwap directEnv quoteP1 ''wallet1'' SOL emptySystem)"
  have n: "pendingSwaps emptySystem ''swap-1'' = None" by (simp add: emptySystem_def)
  have r: "swapRows emptySystem = Map.empty" by (simp add: emptySystem_def)
  note a = swap_lifecycle [of directEnv quoteP1 "''wallet1''" SOL emptySystem
                              "confirmEnv 1000" "''swap-1''" legacyTx "confirmEnv 1000" legacyTx]
  note b = swap_lifecycle [of directEnv quoteP1 "''wallet1''" SOL ?st
                              "confirmEnv 1000" "''swap-1''" legacyTx "confirmEnv 2000" legacyTx]
  from a n r prepareSwap_direct_fst prepareSwap_direct_pending executeSwap_direct_first b
  show ?thesis by simp
qed


end
